theory Spec2Isabelle
  imports Complex_Main
begin

section \<open>Values, exceptions and the unit-conversion collaborator\<close>

text \<open>
  The calculator of \<^verbatim>\<open>SplineDurabilityDudleyMethod.py\<close> works on Python floats. They are
  modelled as real numbers: rounding, overflow and signed zeros are outside the model.
  What Python does beyond arithmetic is explicit:
  \<^item> a raised exception is a value of \<open>exn\<close>, and a function that may raise returns
    \<open>exn + 'a\<close> with \<open>Inl\<close> for the exception;
  \<^item> a function whose \<^verbatim>\<open>if/elif\<close> chain ends without \<^verbatim>\<open>return\<close> returns Python's
    \<^verbatim>\<open>None\<close>, the value \<open>PyNone\<close> of \<open>pyval\<close>;
  \<^item> true division of Python floats raises \<^verbatim>\<open>ZeroDivisionError\<close> on a zero divisor,
    arithmetic on \<^verbatim>\<open>None\<close> raises \<^verbatim>\<open>TypeError\<close>, an index outside a list raises
    \<^verbatim>\<open>IndexError\<close>, and reading an attribute that was never assigned raises
    \<^verbatim>\<open>AttributeError\<close>;
  \<^item> \<^verbatim>\<open>np.tan\<close> returns a \<^verbatim>\<open>numpy.float64\<close>, whose division by zero does not raise but
    gives an infinity or a NaN; such values are of type \<open>npfloat\<close>, where \<open>Inf\<close> stands
    for the infinity of either sign. The tangent is that of the reals; no float is an
    odd multiple of pi / 2, where the two differ.
\<close>

datatype exn =
    ZeroDivisionError
  | IndexError
  | TypeError
  | AttributeError
  | UnrecognisedHardnessTypeException
  | UnrecognisedToothEndException

datatype pyval = PyNone | PyFloat real

datatype npfloat = Fin real | Inf | NaN

text \<open>
  \<^verbatim>\<open>PressureConverter\<close> and \<^verbatim>\<open>LengthConverter\<close> come from the package
  \<^verbatim>\<open>BaseCalculations.UnitConverter\<close>, which is not part of the sources. The calculator
  takes the two methods it calls as a parameter.
\<close>

record UnitConverter =
  psiToPa :: "real \<Rightarrow> real"
  mToInch :: "real \<Rightarrow> real"

text \<open>
  Modelled from the spec: the unit-conversion collaborator
  (\<^verbatim>\<open>BaseCalculations.UnitConverter\<close>, absent from the sources), with the factors of the
  external-interfaces section, 1 psi = 6894.757293168 Pa and 1 in = 0.0254 m.
\<close>

definition specConverter :: UnitConverter where
  "specConverter =
     \<lparr> psiToPa = (\<lambda>psi. psi * 6894.757293168), mToInch = (\<lambda>m. m / 0.0254) \<rparr>"

definition py_div :: "real \<Rightarrow> real \<Rightarrow> exn + real" where
  "py_div a b = (if b = 0 then Inl ZeroDivisionError else Inr (a / b))"

text \<open>
  Indexing a Python list with an integer: an index from \<open>-len\<close> up to \<open>-1\<close> counts from
  the end, and an index outside \<open>-len .. len - 1\<close> raises \<^verbatim>\<open>IndexError\<close>.
\<close>

definition py_index :: "'a list \<Rightarrow> int \<Rightarrow> exn + 'a" where
  "py_index xs k =
     (if 0 \<le> k \<and> k < int (length xs) then Inr (xs ! nat k)
      else if k < 0 \<and> - int (length xs) \<le> k then Inr (xs ! nat (int (length xs) + k))
      else Inl IndexError)"

text \<open>Arithmetic of \<^verbatim>\<open>numpy.float64\<close> with Python floats, as far as the calculator uses it.\<close>

fun np_div_float :: "npfloat \<Rightarrow> real \<Rightarrow> npfloat" where
  "np_div_float (Fin a) b = (if b = 0 then (if a = 0 then NaN else Inf) else Fin (a / b))"
| "np_div_float Inf b = Inf"
| "np_div_float NaN b = NaN"

fun np_add_float :: "npfloat \<Rightarrow> real \<Rightarrow> npfloat" where
  "np_add_float (Fin a) b = Fin (a + b)"
| "np_add_float Inf b = Inf"
| "np_add_float NaN b = NaN"

fun float_mul_np :: "real \<Rightarrow> npfloat \<Rightarrow> npfloat" where
  "float_mul_np k (Fin a) = Fin (k * a)"
| "float_mul_np k Inf = (if k = 0 then NaN else Inf)"
| "float_mul_np k NaN = NaN"

fun float_div_np :: "real \<Rightarrow> npfloat \<Rightarrow> npfloat" where
  "float_div_np a (Fin b) = (if b = 0 then (if a = 0 then NaN else Inf) else Fin (a / b))"
| "float_div_np a Inf = Fin 0"
| "float_div_np a NaN = NaN"

section \<open>The formulas and lookup tables of \<^verbatim>\<open>DudleyMethodSpline\<close>\<close>

definition solidShaftStress :: "real \<Rightarrow> real \<Rightarrow> exn + real" where
  "solidShaftStress t dRE = py_div (16 * t) (pi * dRE ^ 3)"

definition hollowShaftStress :: "real \<Rightarrow> real \<Rightarrow> real \<Rightarrow> exn + real" where
  "hollowShaftStress t dRE dH = py_div (16 * t * dRE) (pi * (dRE ^ 4 - dH ^ 4))"

definition kTable :: "real list list" where
  "kTable = [[1, 1.2, 1.5, 1.8], [1.2, 1.3, 1.8, 2.1], [2, 2.2, 2.4, 2.8]]"

definition getSplineApplicationFactor :: "int \<Rightarrow> int \<Rightarrow> exn + real" where
  "getSplineApplicationFactor supplyShockType loadShockType =
     (case py_index kTable supplyShockType of
        Inl e \<Rightarrow> Inl e
      | Inr row \<Rightarrow> py_index row loadShockType)"

definition getLifeFactor :: "real \<Rightarrow> bool \<Rightarrow> real" where
  "getLifeFactor nCyc reversible =
     (if nCyc < 1000 then (if reversible then 1.8 else 1.8)
      else if nCyc < 10000 then (if reversible then 1.0 else 1.0)
      else if nCyc < 100000 then (if reversible then 0.4 else 0.5)
      else if nCyc < 1000000 then (if reversible then 0.3 else 0.4)
      else (if reversible then 0.2 else 0.3))"

definition maximumShaftStress :: "real \<Rightarrow> real \<Rightarrow> real \<Rightarrow> exn + real" where
  "maximumShaftStress sS kA lF = py_div (sS * kA) lF"

definition getAllowableShearStressByHardness ::
  "UnitConverter \<Rightarrow> real \<Rightarrow> string \<Rightarrow> exn + pyval" where
  "getAllowableShearStressByHardness pc hardness hType =
     (if hType = ''Brinell'' then
        (if hardness < 200 then Inr (PyFloat (psiToPa pc 20000))
         else if hardness < 260 then Inr (PyFloat (psiToPa pc 30000))
         else if hardness < 351 then Inr (PyFloat (psiToPa pc 40000))
         else Inr PyNone)
      else if hType = ''Rockwell C'' then
        (if hardness < 38 then Inr (PyFloat (psiToPa pc 40000))
         else if hardness < 46 then Inr (PyFloat (psiToPa pc 45000))
         else if hardness < 53 then Inr (PyFloat (psiToPa pc 40000))
         else if hardness < 63 then Inr (PyFloat (psiToPa pc 50000))
         else Inr PyNone)
      else Inl UnrecognisedHardnessTypeException)"

definition getShaftSafetyFactor :: "real \<Rightarrow> pyval \<Rightarrow> exn + real" where
  "getShaftSafetyFactor maxShaftStress allowableShaftStress =
     (case allowableShaftStress of
        PyNone \<Rightarrow> Inl TypeError
      | PyFloat a \<Rightarrow> py_div a maxShaftStress)"

definition getTeethShearStress ::
  "real \<Rightarrow> real \<Rightarrow> real \<Rightarrow> real \<Rightarrow> real \<Rightarrow> real \<Rightarrow> exn + real" where
  "getTeethShearStress t kM d z fE tC = py_div (4 * t * kM) (d * z * fE * tC)"

definition lookUp :: "real list list" where
  "lookUp = [[1, 1, 1, 1.5], [1, 1, 1.5, 2], [1, 1.5, 2, 2.5], [1.5, 2, 2.5, 3]]"

text \<open>
  The two \<^verbatim>\<open>for\<close> loops of \<^verbatim>\<open>getLoadDistributionFactorSpline\<close>: the counter is
  incremented for each breakpoint until the value is below one, where the loop breaks.
\<close>

fun breakLoop :: "real list \<Rightarrow> real \<Rightarrow> nat \<Rightarrow> nat" where
  "breakLoop [] x m = m"
| "breakLoop (i # rest) x m = (if x < i then m else breakLoop rest x (m + 1))"

definition getLoadDistributionFactorSpline :: "real \<Rightarrow> real \<Rightarrow> exn + real" where
  "getLoadDistributionFactorSpline relativeMisalignment fE =
     (let m = breakLoop [0.001, 0.002, 0.004, 0.008] relativeMisalignment 0;
          m = (if m > 3 then 3 else m);
          n = breakLoop [12.7 / 1000, 25.4 / 1000, 50.8 / 1000, 101 / 1000] fE 0;
          n = (if n > 3 then 3 else n)
      in case py_index lookUp (int m) of
           Inl e \<Rightarrow> Inl e
         | Inr row \<Rightarrow> py_index row (int n))"

definition getCompressiveStress ::
  "real \<Rightarrow> real \<Rightarrow> real \<Rightarrow> real \<Rightarrow> real \<Rightarrow> real \<Rightarrow> exn + real" where
  "getCompressiveStress t kM d z fE h = py_div (2 * t * kM) (d * z * fE * h)"

definition getAllowableCompressiveStressForSplines ::
  "UnitConverter \<Rightarrow> real \<Rightarrow> string \<Rightarrow> string \<Rightarrow> exn + pyval" where
  "getAllowableCompressiveStressForSplines pc hardness hType toothEnd =
     (if toothEnd \<notin> set [''Straight'', ''Crowned''] then Inl UnrecognisedToothEndException
      else if hType = ''Brinell'' then
        (if hardness < 200 then
           (if toothEnd = ''Straight'' then Inr (PyFloat (psiToPa pc 1500))
            else Inr (PyFloat (psiToPa pc 6000)))
         else if hardness < 260 then
           (if toothEnd = ''Straight'' then Inr (PyFloat (psiToPa pc 2000))
            else Inr (PyFloat (psiToPa pc 8000)))
         else if hardness < 351 then
           (if toothEnd = ''Straight'' then Inr (PyFloat (psiToPa pc 3000))
            else Inr (PyFloat (psiToPa pc 12000)))
         else Inr PyNone)
      else if hType = ''Rockwell C'' then
        (if hardness < 38 then
           (if toothEnd = ''Straight'' then Inr (PyFloat (psiToPa pc 3000))
            else Inr (PyFloat (psiToPa pc 12000)))
         else if hardness < 53 then
           (if toothEnd = ''Straight'' then Inr (PyFloat (psiToPa pc 4000))
            else Inr (PyFloat (psiToPa pc 16000)))
         else if hardness < 63 then
           (if toothEnd = ''Straight'' then Inr (PyFloat (psiToPa pc 5000))
            else Inr (PyFloat (psiToPa pc 20000)))
         else Inr PyNone)
      else Inl UnrecognisedHardnessTypeException)"

definition getSplineWearLifeFactor :: "real \<Rightarrow> pyval" where
  "getSplineWearLifeFactor nCyc =
     (if nCyc < 10000 then PyFloat 4.0
      else if nCyc < 100000 then PyFloat 2.8
      else if nCyc < 1000000 then PyFloat 2
      else if nCyc < 10000000 then PyFloat 1.4
      else if nCyc < 100000000 then PyFloat 1
      else if nCyc < 1000000000 then PyFloat 0.7
      else if nCyc < 10000000000 then PyFloat 0.5
      else PyNone)"

definition getAllowableCompressiveStress :: "real \<Rightarrow> real \<Rightarrow> pyval \<Rightarrow> bool \<Rightarrow> exn + real" where
  "getAllowableCompressiveStress sC kA lW flexible =
     (case lW of
        PyNone \<Rightarrow> Inl TypeError
      | PyFloat l \<Rightarrow> (if flexible then py_div (sC * kA) l else py_div (sC * kA) (9 * l)))"

definition getBurstingRadialStress :: "real \<Rightarrow> real \<Rightarrow> real \<Rightarrow> real \<Rightarrow> real \<Rightarrow> npfloat" where
  "getBurstingRadialStress t phi d tW f = np_div_float (Fin (t * tan phi)) (pi * d * tW * f)"

definition getBurstingCentrifugalStress :: "UnitConverter \<Rightarrow> real \<Rightarrow> real \<Rightarrow> real \<Rightarrow> real" where
  "getBurstingCentrifugalStress pc n dOi dRi =
     psiToPa pc (0.828 * (1 / 1000000) * n ^ 2 *
       (2 * (mToInch pc dOi) ^ 2 + (0.424 * (mToInch pc dRi) ^ 2)))"

definition getBurstingTensileStress :: "real \<Rightarrow> real \<Rightarrow> real \<Rightarrow> real \<Rightarrow> exn + real" where
  "getBurstingTensileStress t d fE y = py_div (4 * t) (d ^ 2 * fE * y)"

definition getTotalBurstingStress :: "real \<Rightarrow> real \<Rightarrow> npfloat \<Rightarrow> real \<Rightarrow> real \<Rightarrow> npfloat" where
  "getTotalBurstingStress kA kM s1 s2 s3 =
     np_add_float (float_mul_np (kA * kM) (np_add_float s1 s3)) s2"

definition getAllowableBurstingStressByHardness ::
  "UnitConverter \<Rightarrow> real \<Rightarrow> string \<Rightarrow> exn + pyval" where
  "getAllowableBurstingStressByHardness pc hardness hType =
     (if hType = ''Brinell'' then
        (if hardness < 200 then Inr (PyFloat (psiToPa pc 22000))
         else if hardness < 260 then Inr (PyFloat (psiToPa pc 32000))
         else if hardness < 351 then Inr (PyFloat (psiToPa pc 45000))
         else Inr PyNone)
      else if hType = ''Rockwell C'' then
        (if hardness < 46 then Inr (PyFloat (psiToPa pc 45000))
         else if hardness < 53 then Inr (PyFloat (psiToPa pc 50000))
         else if hardness < 63 then Inr (PyFloat (psiToPa pc 55000))
         else Inr PyNone)
      else Inl UnrecognisedHardnessTypeException)"

definition getBurstingSafetyFactor :: "npfloat \<Rightarrow> pyval \<Rightarrow> real \<Rightarrow> exn + npfloat" where
  "getBurstingSafetyFactor sTTot sTTotMax lF =
     (case sTTotMax of
        PyNone \<Rightarrow> Inl TypeError
      | PyFloat a \<Rightarrow> Inr (float_div_np a (np_div_float sTTot lF)))"

section \<open>The object and its calculation pipeline\<close>

text \<open>
  The attributes that \<^verbatim>\<open>__init__\<close> stores (\<^verbatim>\<open>self._t\<close> is \<open>self_t\<close>, and so on); the
  pipeline only reads them.
\<close>

record CalculationInput =
  self_t :: real
  self_dRe :: real
  self_supplyShockType :: int
  self_loadShockType :: int
  self_n :: real
  self_nCyc :: real
  self_nTotal :: real
  self_hardness :: real
  self_d :: real
  self_z :: real
  self_fE :: real
  self_tC :: real
  self_relativeMisalignment :: real
  self_h :: real
  self_phi :: real
  self_tW :: real
  self_f :: real
  self_dOi :: real
  self_dRi :: real
  self_dH :: real
  self_hType :: string
  self_reversible :: bool
  self_toothEnd :: string
  self_flexible :: bool
  self_y :: real

text \<open>
  The attributes that \<^verbatim>\<open>calculate\<close> assigns. An attribute that has not been assigned
  is \<open>None\<close>; an assigned one holds the Python value.
\<close>

record CalculationResult =
  self_shaftStress :: "real option"
  self_appFactor :: "real option"
  self_splineLF :: "real option"
  self_allowShaftStress :: "pyval option"
  self_maxShaftStress :: "real option"
  self_shaftSafetyFactor :: "real option"
  self_teethLoadkM :: "real option"
  self_teethShearStress :: "real option"
  self_maxTeethShearStress :: "real option"
  self_teethSafetyFactor :: "real option"
  self_compStress :: "real option"
  self_allowCompStress :: "pyval option"
  self_lifeWear :: "pyval option"
  self_factoredCompStress :: "real option"
  self_compSafetyFactor :: "real option"
  self_burstRad :: "npfloat option"
  self_burstCentrifugal :: "real option"
  self_burstTens :: "real option"
  self_burstTotal :: "npfloat option"
  self_allowBurstStress :: "pyval option"
  self_burstSafetyFactor :: "npfloat option"

definition unassigned :: CalculationResult where
  "unassigned =
     \<lparr> self_shaftStress = None, self_appFactor = None, self_splineLF = None,
       self_allowShaftStress = None, self_maxShaftStress = None,
       self_shaftSafetyFactor = None, self_teethLoadkM = None,
       self_teethShearStress = None, self_maxTeethShearStress = None,
       self_teethSafetyFactor = None, self_compStress = None,
       self_allowCompStress = None, self_lifeWear = None,
       self_factoredCompStress = None, self_compSafetyFactor = None,
       self_burstRad = None, self_burstCentrifugal = None, self_burstTens = None,
       self_burstTotal = None, self_allowBurstStress = None,
       self_burstSafetyFactor = None \<rparr>"

text \<open>
  Reading an attribute that no statement has assigned raises \<^verbatim>\<open>AttributeError\<close>.
\<close>

definition attr :: "'a option \<Rightarrow> exn + 'a" where
  "attr a = (case a of None \<Rightarrow> Inl AttributeError | Some v \<Rightarrow> Inr v)"

text \<open>Evaluation goes on with the value unless an exception was raised.\<close>

definition bindE :: "exn + 'a \<Rightarrow> ('a \<Rightarrow> exn + 'b) \<Rightarrow> exn + 'b" where
  "bindE m k = (case m of Inl e \<Rightarrow> Inl e | Inr v \<Rightarrow> k v)"

text \<open>The division \<^verbatim>\<open>self._allowCompStress/self._factoredCompStress\<close>.\<close>

definition pyval_div :: "pyval \<Rightarrow> real \<Rightarrow> exn + real" where
  "pyval_div a b = (case a of PyNone \<Rightarrow> Inl TypeError | PyFloat x \<Rightarrow> py_div x b)"

text \<open>
  The statements of \<^verbatim>\<open>calculate\<close>, in the order of the source. Each one evaluates its
  right-hand side, reading the attributes that the call names, and assigns one attribute;
  an exception leaves the attributes as they were before the statement.
\<close>

definition assign_shaftStress :: "CalculationInput \<Rightarrow> CalculationResult \<Rightarrow> exn + CalculationResult" where
  "assign_shaftStress i r =
     bindE (if self_dH i = 0 then solidShaftStress (self_t i) (self_dRe i)
            else hollowShaftStress (self_t i) (self_dRe i) (self_dH i))
       (\<lambda>v. Inr (r\<lparr>self_shaftStress := Some v\<rparr>))"

definition assign_appFactor :: "CalculationInput \<Rightarrow> CalculationResult \<Rightarrow> exn + CalculationResult" where
  "assign_appFactor i r =
     bindE (getSplineApplicationFactor (self_supplyShockType i) (self_loadShockType i))
       (\<lambda>v. Inr (r\<lparr>self_appFactor := Some v\<rparr>))"

definition assign_splineLF :: "CalculationInput \<Rightarrow> CalculationResult \<Rightarrow> exn + CalculationResult" where
  "assign_splineLF i r =
     Inr (r\<lparr>self_splineLF := Some (getLifeFactor (self_nCyc i) (self_reversible i))\<rparr>)"

definition assign_allowShaftStress ::
  "UnitConverter \<Rightarrow> CalculationInput \<Rightarrow> CalculationResult \<Rightarrow> exn + CalculationResult" where
  "assign_allowShaftStress pc i r =
     bindE (getAllowableShearStressByHardness pc (self_hardness i) (self_hType i))
       (\<lambda>v. Inr (r\<lparr>self_allowShaftStress := Some v\<rparr>))"

definition assign_maxShaftStress :: "CalculationResult \<Rightarrow> exn + CalculationResult" where
  "assign_maxShaftStress r =
     bindE (attr (self_shaftStress r)) (\<lambda>sS.
     bindE (attr (self_appFactor r)) (\<lambda>kA.
     bindE (attr (self_splineLF r)) (\<lambda>lF.
     bindE (maximumShaftStress sS kA lF)
       (\<lambda>v. Inr (r\<lparr>self_maxShaftStress := Some v\<rparr>)))))"

definition assign_shaftSafetyFactor :: "CalculationResult \<Rightarrow> exn + CalculationResult" where
  "assign_shaftSafetyFactor r =
     bindE (attr (self_maxShaftStress r)) (\<lambda>m.
     bindE (attr (self_allowShaftStress r)) (\<lambda>a.
     bindE (getShaftSafetyFactor m a)
       (\<lambda>v. Inr (r\<lparr>self_shaftSafetyFactor := Some v\<rparr>))))"

definition assign_teethLoadkM :: "CalculationInput \<Rightarrow> CalculationResult \<Rightarrow> exn + CalculationResult" where
  "assign_teethLoadkM i r =
     bindE (getLoadDistributionFactorSpline (self_relativeMisalignment i) (self_fE i))
       (\<lambda>v. Inr (r\<lparr>self_teethLoadkM := Some v\<rparr>))"

definition assign_teethShearStress ::
  "CalculationInput \<Rightarrow> CalculationResult \<Rightarrow> exn + CalculationResult" where
  "assign_teethShearStress i r =
     bindE (attr (self_teethLoadkM r)) (\<lambda>kM.
     bindE (getTeethShearStress (self_t i) kM (self_d i) (self_z i) (self_fE i) (self_tC i))
       (\<lambda>v. Inr (r\<lparr>self_teethShearStress := Some v\<rparr>)))"

definition assign_maxTeethShearStress :: "CalculationResult \<Rightarrow> exn + CalculationResult" where
  "assign_maxTeethShearStress r =
     bindE (attr (self_teethShearStress r)) (\<lambda>sS.
     bindE (attr (self_appFactor r)) (\<lambda>kA.
     bindE (attr (self_splineLF r)) (\<lambda>lF.
     bindE (maximumShaftStress sS kA lF)
       (\<lambda>v. Inr (r\<lparr>self_maxTeethShearStress := Some v\<rparr>)))))"

definition assign_teethSafetyFactor :: "CalculationResult \<Rightarrow> exn + CalculationResult" where
  "assign_teethSafetyFactor r =
     bindE (attr (self_maxTeethShearStress r)) (\<lambda>m.
     bindE (attr (self_allowShaftStress r)) (\<lambda>a.
     bindE (getShaftSafetyFactor m a)
       (\<lambda>v. Inr (r\<lparr>self_teethSafetyFactor := Some v\<rparr>))))"

definition assign_compStress :: "CalculationInput \<Rightarrow> CalculationResult \<Rightarrow> exn + CalculationResult" where
  "assign_compStress i r =
     bindE (attr (self_teethLoadkM r)) (\<lambda>kM.
     bindE (getCompressiveStress (self_t i) kM (self_d i) (self_z i) (self_fE i) (self_h i))
       (\<lambda>v. Inr (r\<lparr>self_compStress := Some v\<rparr>)))"

definition assign_allowCompStress ::
  "UnitConverter \<Rightarrow> CalculationInput \<Rightarrow> CalculationResult \<Rightarrow> exn + CalculationResult" where
  "assign_allowCompStress pc i r =
     bindE (getAllowableCompressiveStressForSplines pc (self_hardness i) (self_hType i)
              (self_toothEnd i))
       (\<lambda>v. Inr (r\<lparr>self_allowCompStress := Some v\<rparr>))"

text \<open>
  The \<^verbatim>\<open>if self._flexible\<close> statement has two assignments in its first branch and one in
  its second. They are two statements here, each with the test, so that an exception in
  the second assignment keeps \<^verbatim>\<open>self._lifeWear\<close> assigned, as in the source.
\<close>

definition assign_lifeWear :: "CalculationInput \<Rightarrow> CalculationResult \<Rightarrow> exn + CalculationResult" where
  "assign_lifeWear i r =
     (if self_flexible i
      then Inr (r\<lparr>self_lifeWear := Some (getSplineWearLifeFactor (self_nTotal i))\<rparr>)
      else Inr r)"

definition assign_factoredCompStress ::
  "CalculationInput \<Rightarrow> CalculationResult \<Rightarrow> exn + CalculationResult" where
  "assign_factoredCompStress i r =
     (if self_flexible i then
        bindE (attr (self_compStress r)) (\<lambda>sC.
        bindE (attr (self_appFactor r)) (\<lambda>kA.
        bindE (attr (self_lifeWear r)) (\<lambda>lW.
        bindE (getAllowableCompressiveStress sC kA lW True)
          (\<lambda>v. Inr (r\<lparr>self_factoredCompStress := Some v\<rparr>)))))
      else
        bindE (attr (self_compStress r)) (\<lambda>sC.
        bindE (attr (self_appFactor r)) (\<lambda>kA.
        bindE (attr (self_splineLF r)) (\<lambda>lF.
        bindE (getAllowableCompressiveStress sC kA (PyFloat lF) False)
          (\<lambda>v. Inr (r\<lparr>self_factoredCompStress := Some v\<rparr>))))))"

definition assign_compSafetyFactor :: "CalculationResult \<Rightarrow> exn + CalculationResult" where
  "assign_compSafetyFactor r =
     bindE (attr (self_allowCompStress r)) (\<lambda>a.
     bindE (attr (self_factoredCompStress r)) (\<lambda>f.
     bindE (pyval_div a f)
       (\<lambda>v. Inr (r\<lparr>self_compSafetyFactor := Some v\<rparr>))))"

definition assign_burstRad :: "CalculationInput \<Rightarrow> CalculationResult \<Rightarrow> exn + CalculationResult" where
  "assign_burstRad i r =
     Inr (r\<lparr>self_burstRad := Some (getBurstingRadialStress (self_t i) (self_phi i) (self_d i)
                                      (self_tW i) (self_f i))\<rparr>)"

definition assign_burstCentrifugal ::
  "UnitConverter \<Rightarrow> CalculationInput \<Rightarrow> CalculationResult \<Rightarrow> exn + CalculationResult" where
  "assign_burstCentrifugal pc i r =
     Inr (r\<lparr>self_burstCentrifugal :=
              Some (getBurstingCentrifugalStress pc (self_n i) (self_dOi i) (self_dRi i))\<rparr>)"

definition assign_burstTens :: "CalculationInput \<Rightarrow> CalculationResult \<Rightarrow> exn + CalculationResult" where
  "assign_burstTens i r =
     bindE (getBurstingTensileStress (self_t i) (self_d i) (self_fE i) (self_y i))
       (\<lambda>v. Inr (r\<lparr>self_burstTens := Some v\<rparr>))"

definition assign_burstTotal :: "CalculationResult \<Rightarrow> exn + CalculationResult" where
  "assign_burstTotal r =
     bindE (attr (self_appFactor r)) (\<lambda>kA.
     bindE (attr (self_teethLoadkM r)) (\<lambda>kM.
     bindE (attr (self_burstRad r)) (\<lambda>s1.
     bindE (attr (self_burstCentrifugal r)) (\<lambda>s2.
     bindE (attr (self_burstTens r)) (\<lambda>s3.
       Inr (r\<lparr>self_burstTotal := Some (getTotalBurstingStress kA kM s1 s2 s3)\<rparr>))))))"

definition assign_allowBurstStress ::
  "UnitConverter \<Rightarrow> CalculationInput \<Rightarrow> CalculationResult \<Rightarrow> exn + CalculationResult" where
  "assign_allowBurstStress pc i r =
     bindE (getAllowableBurstingStressByHardness pc (self_hardness i) (self_hType i))
       (\<lambda>v. Inr (r\<lparr>self_allowBurstStress := Some v\<rparr>))"

definition assign_burstSafetyFactor :: "CalculationResult \<Rightarrow> exn + CalculationResult" where
  "assign_burstSafetyFactor r =
     bindE (attr (self_burstTotal r)) (\<lambda>sTTot.
     bindE (attr (self_allowBurstStress r)) (\<lambda>sTTotMax.
     bindE (attr (self_splineLF r)) (\<lambda>lF.
     bindE (getBurstingSafetyFactor sTTot sTTotMax lF)
       (\<lambda>v. Inr (r\<lparr>self_burstSafetyFactor := Some v\<rparr>)))))"

text \<open>
  Running statements in sequence: the first exception ends the method, and the attributes
  stay as the statements before it left them.
\<close>

fun run ::
  "(CalculationResult \<Rightarrow> exn + CalculationResult) list \<Rightarrow> CalculationResult
     \<Rightarrow> exn option \<times> CalculationResult" where
  "run [] r = (None, r)"
| "run (s # ss) r = (case s r of Inl e \<Rightarrow> (Some e, r) | Inr r' \<Rightarrow> run ss r')"

definition statements ::
  "UnitConverter \<Rightarrow> CalculationInput \<Rightarrow> (CalculationResult \<Rightarrow> exn + CalculationResult) list" where
  "statements pc i =
     [assign_shaftStress i, assign_appFactor i, assign_splineLF i,
      assign_allowShaftStress pc i, assign_maxShaftStress, assign_shaftSafetyFactor,
      assign_teethLoadkM i, assign_teethShearStress i, assign_maxTeethShearStress,
      assign_teethSafetyFactor, assign_compStress i, assign_allowCompStress pc i,
      assign_lifeWear i, assign_factoredCompStress i, assign_compSafetyFactor,
      assign_burstRad i, assign_burstCentrifugal pc i, assign_burstTens i,
      assign_burstTotal, assign_allowBurstStress pc i, assign_burstSafetyFactor]"

text \<open>
  \<^verbatim>\<open>calculate\<close>: the result is the exception that ended the method, if any, and the
  attributes as the method left them.
\<close>

definition calculate ::
  "UnitConverter \<Rightarrow> CalculationInput \<Rightarrow> CalculationResult \<Rightarrow> exn option \<times> CalculationResult" where
  "calculate pc i r = run (statements pc i) r"

text \<open>
  \<^verbatim>\<open>__init__\<close>: the arguments are stored and, with \<^verbatim>\<open>autoCalc\<close>, the pipeline runs.
  An exception in it leaves the constructor, and the caller gets no object.
\<close>

definition init ::
  "UnitConverter \<Rightarrow> CalculationInput \<Rightarrow> bool \<Rightarrow> exn + CalculationInput \<times> CalculationResult" where
  "init pc i autoCalc =
     (if autoCalc then
        (case calculate pc i unassigned of
           (Some e, r) \<Rightarrow> Inl e
         | (None, r) \<Rightarrow> Inr (i, r))
      else Inr (i, unassigned))"

section \<open>The lookups as the specification words them\<close>

text \<open>
  The specification describes each lookup as an ordered list of pairs of an upper bound and
  a value, searched for the first bound that the argument is strictly below. This is that
  search, written from the specification's words; the theorems compare the source's
  \<^verbatim>\<open>if/elif\<close> chains with it.
\<close>

fun firstBelow :: "(real \<times> 'a) list \<Rightarrow> real \<Rightarrow> 'a option" where
  "firstBelow [] x = None"
| "firstBelow ((b, v) # rest) x = (if x < b then Some v else firstBelow rest x)"

text \<open>
  A table of stresses in psi, looked up and converted to pascals; no bound above the
  argument gives Python's \<^verbatim>\<open>None\<close>.
\<close>

definition psiTable :: "UnitConverter \<Rightarrow> (real \<times> real) list \<Rightarrow> real \<Rightarrow> pyval" where
  "psiTable pc table x =
     (case firstBelow table x of None \<Rightarrow> PyNone | Some psi \<Rightarrow> PyFloat (psiToPa pc psi))"

text \<open>
  The bucket index of the specification for four breakpoints: the number of breakpoints
  at or below the value, with everything from the third breakpoint on in bucket 3.
\<close>

definition bucket :: "real \<Rightarrow> real \<Rightarrow> real \<Rightarrow> real \<Rightarrow> real \<Rightarrow> nat" where
  "bucket a b c d x = (if x < a then 0 else if x < b then 1 else if x < c then 2 else 3)"

section \<open>An input set\<close>

text \<open>
  The choices that the entry form preselects (\<^verbatim>\<open>defaultChoices\<close> in \<^verbatim>\<open>DMSEntryPanel\<close>:
  Rockwell C 58-63, medium-shock power source, uniform load, fewer than 1E4 torque cycles,
  fewer than 1E10 revolutions, unidirectional, straight teeth, flexible), translated as
  \<^verbatim>\<open>calculateDudley\<close> does, with a geometry and a load for a solid shaft.
\<close>

definition exampleInput :: CalculationInput where
  "exampleInput =
     \<lparr> self_t = 100, self_dRe = 0.05, self_supplyShockType = 2, self_loadShockType = 0,
       self_n = 3000, self_nCyc = 9999, self_nTotal = 9999999999, self_hardness = 60,
       self_d = 0.06, self_z = 20, self_fE = 0.03, self_tC = 0.004,
       self_relativeMisalignment = 0.001, self_h = 0.005, self_phi = 0, self_tW = 0.01,
       self_f = 0.03, self_dOi = 0.1, self_dRi = 0.07, self_dH = 0,
       self_hType = ''Rockwell C'', self_reversible = False, self_toothEnd = ''Straight'',
       self_flexible = True, self_y = 1.5 \<rparr>"

section \<open>Running the pipeline again\<close>

text \<open>
  The fields of the result record of the specification: every attribute that \<^verbatim>\<open>calculate\<close>
  assigns, except the wear life factor, which the specification does not list and which
  only a flexible spline assigns.
\<close>

definition resultFields where
  "resultFields r =
     (self_shaftStress r, self_appFactor r, self_splineLF r, self_allowShaftStress r,
      self_maxShaftStress r, self_shaftSafetyFactor r, self_teethLoadkM r,
      self_teethShearStress r, self_maxTeethShearStress r, self_teethSafetyFactor r,
      self_compStress r, self_allowCompStress r, self_factoredCompStress r,
      self_compSafetyFactor r, self_burstRad r, self_burstCentrifugal r, self_burstTens r,
      self_burstTotal r, self_allowBurstStress r, self_burstSafetyFactor r)"

text \<open>
  Two conditions on a list of statements, for the proofs about a second run. In the first,
  \<open>pre\<close> are the statements already run: a statement that leaves a state as it is
  still does so after a later statement has assigned its attribute, and a statement leaves
  its own result state as it is.
\<close>

fun settles ::
  "(CalculationResult \<Rightarrow> exn + CalculationResult) list
     \<Rightarrow> (CalculationResult \<Rightarrow> exn + CalculationResult) list \<Rightarrow> bool" where
  "settles pre [] = True"
| "settles pre (s # suf) =
     ((\<forall>p\<in>set pre. \<forall>b b'. p b = Inr b \<and> s b = Inr b' \<longrightarrow> p b' = Inr b')
      \<and> (\<forall>a a'. s a = Inr a' \<longrightarrow> s a' = Inr a')
      \<and> settles (pre @ [s]) suf)"

text \<open>
  In the second, each statement comes with the agreement that it adds: from two states
  that agree so far, the statement raises the same exception in both, or completes in both
  with states that agree on its attribute as well.
\<close>

fun related ::
  "(CalculationResult \<Rightarrow> CalculationResult \<Rightarrow> bool) list
     \<Rightarrow> (CalculationResult \<Rightarrow> exn + CalculationResult) list
     \<Rightarrow> (CalculationResult \<Rightarrow> CalculationResult \<Rightarrow> bool) list \<Rightarrow> bool" where
  "related known [] qs = True"
| "related known (s # ss) [] = False"
| "related known (s # ss) (q # qs) =
     ((\<forall>a b. list_all (\<lambda>e. e a b) known \<longrightarrow>
         (case s a of
            Inl x \<Rightarrow> s b = Inl x
          | Inr a' \<Rightarrow> (\<exists>b'. s b = Inr b' \<and> list_all (\<lambda>e. e a' b') (known @ [q]))))
      \<and> related (known @ [q]) ss qs)"

definition same_attributes ::
  "CalculationInput \<Rightarrow> (CalculationResult \<Rightarrow> CalculationResult \<Rightarrow> bool) list" where
  "same_attributes i =
     [\<lambda>a b. self_shaftStress a = self_shaftStress b,
      \<lambda>a b. self_appFactor a = self_appFactor b,
      \<lambda>a b. self_splineLF a = self_splineLF b,
      \<lambda>a b. self_allowShaftStress a = self_allowShaftStress b,
      \<lambda>a b. self_maxShaftStress a = self_maxShaftStress b,
      \<lambda>a b. self_shaftSafetyFactor a = self_shaftSafetyFactor b,
      \<lambda>a b. self_teethLoadkM a = self_teethLoadkM b,
      \<lambda>a b. self_teethShearStress a = self_teethShearStress b,
      \<lambda>a b. self_maxTeethShearStress a = self_maxTeethShearStress b,
      \<lambda>a b. self_teethSafetyFactor a = self_teethSafetyFactor b,
      \<lambda>a b. self_compStress a = self_compStress b,
      \<lambda>a b. self_allowCompStress a = self_allowCompStress b,
      \<lambda>a b. self_flexible i \<longrightarrow> self_lifeWear a = self_lifeWear b,
      \<lambda>a b. self_factoredCompStress a = self_factoredCompStress b,
      \<lambda>a b. self_compSafetyFactor a = self_compSafetyFactor b,
      \<lambda>a b. self_burstRad a = self_burstRad b,
      \<lambda>a b. self_burstCentrifugal a = self_burstCentrifugal b,
      \<lambda>a b. self_burstTens a = self_burstTens b,
      \<lambda>a b. self_burstTotal a = self_burstTotal b,
      \<lambda>a b. self_allowBurstStress a = self_allowBurstStress b,
      \<lambda>a b. self_burstSafetyFactor a = self_burstSafetyFactor b]"

section \<open>Auxiliary facts\<close>

lemma bindE_Inr: "bindE m k = Inr y \<longleftrightarrow> (\<exists>v. m = Inr v \<and> k v = Inr y)"
  by (cases m) (simp_all add: bindE_def)

lemma attr_Inr: "attr a = Inr v \<longleftrightarrow> a = Some v"
  by (cases a) (simp_all add: attr_def)

lemma run_preserves:
  "\<forall>s\<in>set ss. \<forall>r r'. s r = Inr r' \<longrightarrow> f r' = f r \<Longrightarrow> f (snd (run ss r)) = f r"
  by (induction ss arbitrary: r) (auto split: sum.splits)

lemma run_None_Cons:
  "run (s # ss) r = (None, r') \<longleftrightarrow> (\<exists>r1. s r = Inr r1 \<and> run ss r1 = (None, r'))"
  by (cases "s r") simp_all

lemma run_None_Nil: "run [] r = (None, r') \<longleftrightarrow> r' = r"
  by auto

lemma run_append:
  "run (xs @ ys) r =
     (case run xs r of (None, r1) \<Rightarrow> run ys r1 | (Some e, r1) \<Rightarrow> (Some e, r1))"
  by (induction xs arbitrary: r) (auto split: sum.splits)

lemmas assign_defs =
  assign_shaftStress_def assign_appFactor_def assign_splineLF_def
  assign_allowShaftStress_def assign_maxShaftStress_def assign_shaftSafetyFactor_def
  assign_teethLoadkM_def assign_teethShearStress_def assign_maxTeethShearStress_def
  assign_teethSafetyFactor_def assign_compStress_def assign_allowCompStress_def
  assign_lifeWear_def assign_factoredCompStress_def assign_compSafetyFactor_def
  assign_burstRad_def assign_burstCentrifugal_def assign_burstTens_def assign_burstTotal_def
  assign_allowBurstStress_def assign_burstSafetyFactor_def

text \<open>A statement that completes has assigned its attribute and nothing else.\<close>

lemma assign_shape:
  "assign_shaftStress i r = Inr r' \<Longrightarrow> \<exists>v. r' = r\<lparr>self_shaftStress := Some v\<rparr>"
  "assign_appFactor i r = Inr r' \<Longrightarrow> \<exists>v. r' = r\<lparr>self_appFactor := Some v\<rparr>"
  "assign_splineLF i r = Inr r' \<Longrightarrow> \<exists>v. r' = r\<lparr>self_splineLF := Some v\<rparr>"
  "assign_allowShaftStress pc i r = Inr r' \<Longrightarrow> \<exists>v. r' = r\<lparr>self_allowShaftStress := Some v\<rparr>"
  "assign_maxShaftStress r = Inr r' \<Longrightarrow> \<exists>v. r' = r\<lparr>self_maxShaftStress := Some v\<rparr>"
  "assign_shaftSafetyFactor r = Inr r' \<Longrightarrow> \<exists>v. r' = r\<lparr>self_shaftSafetyFactor := Some v\<rparr>"
  "assign_teethLoadkM i r = Inr r' \<Longrightarrow> \<exists>v. r' = r\<lparr>self_teethLoadkM := Some v\<rparr>"
  "assign_teethShearStress i r = Inr r' \<Longrightarrow> \<exists>v. r' = r\<lparr>self_teethShearStress := Some v\<rparr>"
  "assign_maxTeethShearStress r = Inr r' \<Longrightarrow> \<exists>v. r' = r\<lparr>self_maxTeethShearStress := Some v\<rparr>"
  "assign_teethSafetyFactor r = Inr r' \<Longrightarrow> \<exists>v. r' = r\<lparr>self_teethSafetyFactor := Some v\<rparr>"
  "assign_compStress i r = Inr r' \<Longrightarrow> \<exists>v. r' = r\<lparr>self_compStress := Some v\<rparr>"
  "assign_allowCompStress pc i r = Inr r' \<Longrightarrow> \<exists>v. r' = r\<lparr>self_allowCompStress := Some v\<rparr>"
  "assign_lifeWear i r = Inr r' \<Longrightarrow> r' = r \<or> (\<exists>v. r' = r\<lparr>self_lifeWear := Some v\<rparr>)"
  "assign_factoredCompStress i r = Inr r' \<Longrightarrow> \<exists>v. r' = r\<lparr>self_factoredCompStress := Some v\<rparr>"
  "assign_compSafetyFactor r = Inr r' \<Longrightarrow> \<exists>v. r' = r\<lparr>self_compSafetyFactor := Some v\<rparr>"
  "assign_burstRad i r = Inr r' \<Longrightarrow> \<exists>v. r' = r\<lparr>self_burstRad := Some v\<rparr>"
  "assign_burstCentrifugal pc i r = Inr r' \<Longrightarrow> \<exists>v. r' = r\<lparr>self_burstCentrifugal := Some v\<rparr>"
  "assign_burstTens i r = Inr r' \<Longrightarrow> \<exists>v. r' = r\<lparr>self_burstTens := Some v\<rparr>"
  "assign_burstTotal r = Inr r' \<Longrightarrow> \<exists>v. r' = r\<lparr>self_burstTotal := Some v\<rparr>"
  "assign_allowBurstStress pc i r = Inr r' \<Longrightarrow> \<exists>v. r' = r\<lparr>self_allowBurstStress := Some v\<rparr>"
  "assign_burstSafetyFactor r = Inr r' \<Longrightarrow> \<exists>v. r' = r\<lparr>self_burstSafetyFactor := Some v\<rparr>"
  by (auto simp: bindE_Inr attr_Inr assign_defs split: if_splits)

lemma breakLoop4:
  "breakLoop [a, b, c, d] x 0 =
     (if x < a then 0 else if x < b then 1 else if x < c then 2 else if x < d then 3 else 4)"
  by simp

lemma lookUp_index:
  assumes "m \<le> 3" "n \<le> 3"
  shows "(case py_index lookUp (int m) of Inl e \<Rightarrow> Inl e | Inr row \<Rightarrow> py_index row (int n))
           = Inr (lookUp ! m ! n)"
proof -
  have m: "m = 0 \<or> m = 1 \<or> m = 2 \<or> m = 3" using assms(1) by arith
  have len: "length (lookUp ! m) = 4" using m by (auto simp: lookUp_def)
  have "py_index lookUp (int m) = Inr (lookUp ! m)"
    using assms(1) by (simp add: py_index_def lookUp_def)
  moreover have "py_index (lookUp ! m) (int n) = Inr (lookUp ! m ! n)"
    using assms(2) len by (simp add: py_index_def)
  ultimately show ?thesis by simp
qed

lemma rest_shaftStress:
  "self_shaftStress (snd (run (tl (statements pc i)) r)) = self_shaftStress r"
  by (rule run_preserves) (auto simp: statements_def dest!: assign_shape)

section \<open>Shaft stress\<close>

text \<open>
  Claim C1. The first statement of the pipeline assigns the shaft stress, and no later
  statement changes it. Its value is that of \<^verbatim>\<open>solidShaftStress\<close>, 16 T / (pi Dre^3), when
  the bore diameter is exactly zero, and that of \<^verbatim>\<open>hollowShaftStress\<close>,
  16 T Dre / (pi (Dre^4 - Dh^4)), for every other bore diameter: the choice is by equality
  with zero, with no tolerance. Where the chosen formula divides by zero the statement
  raises and the attribute keeps what it held.
\<close>

theorem shaftStress_dispatch:
  "self_shaftStress (snd (calculate pc i r)) =
     (case (if self_dH i = 0 then solidShaftStress (self_t i) (self_dRe i)
            else hollowShaftStress (self_t i) (self_dRe i) (self_dH i)) of
        Inl e \<Rightarrow> self_shaftStress r
      | Inr v \<Rightarrow> Some v)
   \<and> solidShaftStress t dRE =
       (if dRE = 0 then Inl ZeroDivisionError else Inr (16 * t / (pi * dRE ^ 3)))
   \<and> hollowShaftStress t dRE dH =
       (if dRE ^ 4 = dH ^ 4 then Inl ZeroDivisionError
        else Inr (16 * t * dRE / (pi * (dRE ^ 4 - dH ^ 4))))"
proof -
  have st: "statements pc i = assign_shaftStress i # tl (statements pc i)"
    by (simp add: statements_def)
  have "self_shaftStress (snd (calculate pc i r)) =
     (case (if self_dH i = 0 then solidShaftStress (self_t i) (self_dRe i)
            else hollowShaftStress (self_t i) (self_dRe i) (self_dH i)) of
        Inl e \<Rightarrow> self_shaftStress r
      | Inr v \<Rightarrow> Some v)"
    unfolding calculate_def
    by (subst st) (simp add: rest_shaftStress assign_shaftStress_def bindE_def split: sum.splits)
  moreover have "solidShaftStress t dRE =
       (if dRE = 0 then Inl ZeroDivisionError else Inr (16 * t / (pi * dRE ^ 3)))"
    by (simp add: solidShaftStress_def py_div_def)
  moreover have "hollowShaftStress t dRE dH =
       (if dRE ^ 4 = dH ^ 4 then Inl ZeroDivisionError
        else Inr (16 * t * dRE / (pi * (dRE ^ 4 - dH ^ 4))))"
    by (simp add: hollowShaftStress_def py_div_def)
  ultimately show ?thesis by blast
qed

section \<open>Life factor\<close>

text \<open>
  Claim C3. \<^verbatim>\<open>getLifeFactor\<close> is the step function over the breakpoints 1000, 10000,
  100000 and 1000000 with strict comparisons: 1.8 below 1000, 1.0 below 10000, then the
  pairs (0.5, 0.4), (0.4, 0.3) and, from 1000000 on, (0.3, 0.2) of unidirectional and
  fully-reversed values. A count at a breakpoint is in the higher bucket: 999 gives 1.8
  and 1000 gives 1.0.
\<close>

theorem getLifeFactor_steps:
  "getLifeFactor nCyc reversible =
     (case firstBelow [(1000, (1.8, 1.8)), (10000, (1.0, 1.0)), (100000, (0.5, 0.4)),
                       (1000000, (0.4, 0.3))] nCyc of
        Some (unidirectional, reversed) \<Rightarrow> (if reversible then reversed else unidirectional)
      | None \<Rightarrow> (if reversible then 0.2 else 0.3))
   \<and> getLifeFactor 999 reversible = 1.8
   \<and> getLifeFactor 1000 reversible = 1.0"
  by (simp add: getLifeFactor_def)

section \<open>Load-distribution factor\<close>

text \<open>
  Claim C6. \<^verbatim>\<open>getLoadDistributionFactorSpline\<close> never raises. It returns the entry of the
  table at the bucket of the misalignment among 0.001, 0.002, 0.004, 0.008 and the bucket
  of the face width among 0.0127, 0.0254, 0.0508, 0.101, where a value at or above the
  top breakpoint is in bucket 3. Misalignment 1.0 with face width 1.0 gives 3.0, as
  misalignment 0.008 with face width 0.101 does.
\<close>

theorem getLoadDistributionFactorSpline_buckets:
  "getLoadDistributionFactorSpline rm fE =
     Inr (lookUp ! bucket 0.001 0.002 0.004 0.008 rm ! bucket 0.0127 0.0254 0.0508 0.101 fE)
   \<and> getLoadDistributionFactorSpline 1 1 = Inr 3
   \<and> getLoadDistributionFactorSpline 0.008 0.101 = Inr 3"
proof -
  have m: "(if 3 < breakLoop [a, b, c, d] x 0 then 3 else breakLoop [a, b, c, d] x 0)
            = bucket a b c d x" for a b c d x
    unfolding breakLoop4 bucket_def by simp
  have b: "bucket a b c d x \<le> 3" for a b c d x by (simp add: bucket_def)
  have gen: "getLoadDistributionFactorSpline rm fE =
     Inr (lookUp ! bucket 0.001 0.002 0.004 0.008 rm
                 ! bucket (12.7 / 1000) (25.4 / 1000) (50.8 / 1000) (101 / 1000) fE)" for rm fE
    unfolding getLoadDistributionFactorSpline_def Let_def m
    by (rule lookUp_index) (rule b)+
  have "getLoadDistributionFactorSpline rm fE =
     Inr (lookUp ! bucket 0.001 0.002 0.004 0.008 rm ! bucket 0.0127 0.0254 0.0508 0.101 fE)"
    using gen [of rm fE] by simp
  moreover have "getLoadDistributionFactorSpline 1 1 = Inr 3"
    unfolding gen by (simp add: bucket_def lookUp_def)
  moreover have "getLoadDistributionFactorSpline 0.008 0.101 = Inr 3"
    unfolding gen by (simp add: bucket_def lookUp_def)
  ultimately show ?thesis by blast
qed

section \<open>Bursting stress\<close>


text \<open>
  Claim C8. The centrifugal bursting stress is the converter's pascal value of
  0.828e-6 n^2 (2 Doi^2 + 0.424 Dri^2), where Doi and Dri are the converter's inch values
  of the two diameters. With the conversion factors of the specification, the value for
  n = 2, dOi = 3, dRi = 5 agrees with the source's test, 1012.2969, to four places after
  division by 1000.
\<close>

theorem getBurstingCentrifugalStress_formula:
  "getBurstingCentrifugalStress pc n dOi dRi =
     psiToPa pc (0.000000828 * n\<^sup>2 * (2 * (mToInch pc dOi)\<^sup>2 + 0.424 * (mToInch pc dRi)\<^sup>2))
   \<and> \<bar>getBurstingCentrifugalStress specConverter 2 3 5 / 1000 - 1.0122969\<bar> < 0.00005"
  by (simp add: getBurstingCentrifugalStress_def specConverter_def power2_eq_square)

section \<open>Allowable stresses by hardness\<close>

text \<open>
  Claim C2, as amended. For a recognised hardness type and tooth end, each of the three
  lookups is the search for the first upper bound above the hardness in its table, and
  returns no result exactly when the hardness is at or above the last bound: 351 for
  Brinell, which includes 351 itself, and 63 for Rockwell C. A hardness below the lowest
  tabulated bracket therefore gets the stress of the lowest bracket, and a hardness in a
  gap between two brackets gets the stress of the bracket above the gap.
\<close>

theorem hardness_lookup_tables:
  "getAllowableShearStressByHardness pc h ''Brinell'' =
     Inr (psiTable pc [(200, 20000), (260, 30000), (351, 40000)] h)
   \<and> getAllowableShearStressByHardness pc h ''Rockwell C'' =
     Inr (psiTable pc [(38, 40000), (46, 45000), (53, 40000), (63, 50000)] h)
   \<and> getAllowableCompressiveStressForSplines pc h ''Brinell'' ''Straight'' =
     Inr (psiTable pc [(200, 1500), (260, 2000), (351, 3000)] h)
   \<and> getAllowableCompressiveStressForSplines pc h ''Brinell'' ''Crowned'' =
     Inr (psiTable pc [(200, 6000), (260, 8000), (351, 12000)] h)
   \<and> getAllowableCompressiveStressForSplines pc h ''Rockwell C'' ''Straight'' =
     Inr (psiTable pc [(38, 3000), (53, 4000), (63, 5000)] h)
   \<and> getAllowableCompressiveStressForSplines pc h ''Rockwell C'' ''Crowned'' =
     Inr (psiTable pc [(38, 12000), (53, 16000), (63, 20000)] h)
   \<and> getAllowableBurstingStressByHardness pc h ''Brinell'' =
     Inr (psiTable pc [(200, 22000), (260, 32000), (351, 45000)] h)
   \<and> getAllowableBurstingStressByHardness pc h ''Rockwell C'' =
     Inr (psiTable pc [(46, 45000), (53, 50000), (63, 55000)] h)
   \<and> (getAllowableShearStressByHardness pc h ''Brinell'' = Inr PyNone) = (351 \<le> h)
   \<and> (getAllowableShearStressByHardness pc h ''Rockwell C'' = Inr PyNone) = (63 \<le> h)
   \<and> (getAllowableCompressiveStressForSplines pc h ''Brinell'' ''Straight'' = Inr PyNone)
       = (351 \<le> h)
   \<and> (getAllowableCompressiveStressForSplines pc h ''Brinell'' ''Crowned'' = Inr PyNone)
       = (351 \<le> h)
   \<and> (getAllowableCompressiveStressForSplines pc h ''Rockwell C'' ''Straight'' = Inr PyNone)
       = (63 \<le> h)
   \<and> (getAllowableCompressiveStressForSplines pc h ''Rockwell C'' ''Crowned'' = Inr PyNone)
       = (63 \<le> h)
   \<and> (getAllowableBurstingStressByHardness pc h ''Brinell'' = Inr PyNone) = (351 \<le> h)
   \<and> (getAllowableBurstingStressByHardness pc h ''Rockwell C'' = Inr PyNone) = (63 \<le> h)"
proof -
  have shear: "getAllowableShearStressByHardness pc h ''Brinell'' =
       Inr (psiTable pc [(200, 20000), (260, 30000), (351, 40000)] h)"
    "getAllowableShearStressByHardness pc h ''Rockwell C'' =
       Inr (psiTable pc [(38, 40000), (46, 45000), (53, 40000), (63, 50000)] h)"
    "(getAllowableShearStressByHardness pc h ''Brinell'' = Inr PyNone) = (351 \<le> h)"
    "(getAllowableShearStressByHardness pc h ''Rockwell C'' = Inr PyNone) = (63 \<le> h)"
    by (simp_all add: getAllowableShearStressByHardness_def psiTable_def)
  have comp: "getAllowableCompressiveStressForSplines pc h ''Brinell'' ''Straight'' =
       Inr (psiTable pc [(200, 1500), (260, 2000), (351, 3000)] h)"
    "getAllowableCompressiveStressForSplines pc h ''Brinell'' ''Crowned'' =
       Inr (psiTable pc [(200, 6000), (260, 8000), (351, 12000)] h)"
    "getAllowableCompressiveStressForSplines pc h ''Rockwell C'' ''Straight'' =
       Inr (psiTable pc [(38, 3000), (53, 4000), (63, 5000)] h)"
    "getAllowableCompressiveStressForSplines pc h ''Rockwell C'' ''Crowned'' =
       Inr (psiTable pc [(38, 12000), (53, 16000), (63, 20000)] h)"
    "(getAllowableCompressiveStressForSplines pc h ''Brinell'' ''Straight'' = Inr PyNone)
       = (351 \<le> h)"
    "(getAllowableCompressiveStressForSplines pc h ''Brinell'' ''Crowned'' = Inr PyNone)
       = (351 \<le> h)"
    "(getAllowableCompressiveStressForSplines pc h ''Rockwell C'' ''Straight'' = Inr PyNone)
       = (63 \<le> h)"
    "(getAllowableCompressiveStressForSplines pc h ''Rockwell C'' ''Crowned'' = Inr PyNone)
       = (63 \<le> h)"
    by (simp_all add: getAllowableCompressiveStressForSplines_def psiTable_def)
  have burst: "getAllowableBurstingStressByHardness pc h ''Brinell'' =
       Inr (psiTable pc [(200, 22000), (260, 32000), (351, 45000)] h)"
    "getAllowableBurstingStressByHardness pc h ''Rockwell C'' =
       Inr (psiTable pc [(46, 45000), (53, 50000), (63, 55000)] h)"
    "(getAllowableBurstingStressByHardness pc h ''Brinell'' = Inr PyNone) = (351 \<le> h)"
    "(getAllowableBurstingStressByHardness pc h ''Rockwell C'' = Inr PyNone) = (63 \<le> h)"
    by (simp_all add: getAllowableBurstingStressByHardness_def psiTable_def)
  show ?thesis
    by (intro conjI) (rule shear comp burst)+
qed

text \<open>
  Claim C2, as stated, fails: Brinell 100, below the lowest bracket, gets the 20000 psi of
  the lowest shear bracket and the 22000 psi of the lowest bursting bracket; Rockwell C 47,
  in the gap of the shear table, gets 40000 psi; Rockwell C 20 gets the 3000 psi of the
  lowest compressive bracket. The values are in pascals, with the conversion factor of the
  specification.
\<close>

theorem hardness_below_bracket_counterexample:
  "getAllowableShearStressByHardness specConverter 100 ''Brinell''
     = Inr (PyFloat 137895145.86336)
   \<and> getAllowableShearStressByHardness specConverter 47 ''Rockwell C''
     = Inr (PyFloat 275790291.72672)
   \<and> getAllowableCompressiveStressForSplines specConverter 20 ''Rockwell C'' ''Straight''
     = Inr (PyFloat 20684271.879504)
   \<and> getAllowableBurstingStressByHardness specConverter 100 ''Brinell''
     = Inr (PyFloat 151684660.449696)"
  by (simp add: getAllowableShearStressByHardness_def getAllowableBurstingStressByHardness_def
      getAllowableCompressiveStressForSplines_def specConverter_def)


section \<open>Facts about the pipeline\<close>

lemma assign_Inr:
  "assign_shaftStress i r = Inr r' \<longleftrightarrow>
     (\<exists>v. (if self_dH i = 0 then solidShaftStress (self_t i) (self_dRe i)
            else hollowShaftStress (self_t i) (self_dRe i) (self_dH i)) = Inr v
          \<and> r' = r\<lparr>self_shaftStress := Some v\<rparr>)"
  "assign_appFactor i r = Inr r' \<longleftrightarrow>
     (\<exists>v. getSplineApplicationFactor (self_supplyShockType i) (self_loadShockType i) = Inr v
          \<and> r' = r\<lparr>self_appFactor := Some v\<rparr>)"
  "assign_splineLF i r = Inr r' \<longleftrightarrow>
     r' = r\<lparr>self_splineLF := Some (getLifeFactor (self_nCyc i) (self_reversible i))\<rparr>"
  "assign_allowShaftStress pc i r = Inr r' \<longleftrightarrow>
     (\<exists>v. getAllowableShearStressByHardness pc (self_hardness i) (self_hType i) = Inr v
          \<and> r' = r\<lparr>self_allowShaftStress := Some v\<rparr>)"
  "assign_maxShaftStress r = Inr r' \<longleftrightarrow>
     (\<exists>sS kA lF v. self_shaftStress r = Some sS \<and> self_appFactor r = Some kA
          \<and> self_splineLF r = Some lF \<and> maximumShaftStress sS kA lF = Inr v
          \<and> r' = r\<lparr>self_maxShaftStress := Some v\<rparr>)"
  "assign_shaftSafetyFactor r = Inr r' \<longleftrightarrow>
     (\<exists>m a v. self_maxShaftStress r = Some m \<and> self_allowShaftStress r = Some a
          \<and> getShaftSafetyFactor m a = Inr v
          \<and> r' = r\<lparr>self_shaftSafetyFactor := Some v\<rparr>)"
  "assign_teethLoadkM i r = Inr r' \<longleftrightarrow>
     (\<exists>v. getLoadDistributionFactorSpline (self_relativeMisalignment i) (self_fE i) = Inr v
          \<and> r' = r\<lparr>self_teethLoadkM := Some v\<rparr>)"
  "assign_teethShearStress i r = Inr r' \<longleftrightarrow>
     (\<exists>kM v. self_teethLoadkM r = Some kM
          \<and> getTeethShearStress (self_t i) kM (self_d i) (self_z i) (self_fE i) (self_tC i) = Inr v
          \<and> r' = r\<lparr>self_teethShearStress := Some v\<rparr>)"
  "assign_maxTeethShearStress r = Inr r' \<longleftrightarrow>
     (\<exists>sS kA lF v. self_teethShearStress r = Some sS \<and> self_appFactor r = Some kA
          \<and> self_splineLF r = Some lF \<and> maximumShaftStress sS kA lF = Inr v
          \<and> r' = r\<lparr>self_maxTeethShearStress := Some v\<rparr>)"
  "assign_teethSafetyFactor r = Inr r' \<longleftrightarrow>
     (\<exists>m a v. self_maxTeethShearStress r = Some m \<and> self_allowShaftStress r = Some a
          \<and> getShaftSafetyFactor m a = Inr v
          \<and> r' = r\<lparr>self_teethSafetyFactor := Some v\<rparr>)"
  "assign_compStress i r = Inr r' \<longleftrightarrow>
     (\<exists>kM v. self_teethLoadkM r = Some kM
          \<and> getCompressiveStress (self_t i) kM (self_d i) (self_z i) (self_fE i) (self_h i) = Inr v
          \<and> r' = r\<lparr>self_compStress := Some v\<rparr>)"
  "assign_allowCompStress pc i r = Inr r' \<longleftrightarrow>
     (\<exists>v. getAllowableCompressiveStressForSplines pc (self_hardness i) (self_hType i)
             (self_toothEnd i) = Inr v
          \<and> r' = r\<lparr>self_allowCompStress := Some v\<rparr>)"
  "assign_lifeWear i r = Inr r' \<longleftrightarrow>
     r' = (if self_flexible i
           then r\<lparr>self_lifeWear := Some (getSplineWearLifeFactor (self_nTotal i))\<rparr> else r)"
  "assign_factoredCompStress i r = Inr r' \<longleftrightarrow>
     (\<exists>sC kA v. self_compStress r = Some sC \<and> self_appFactor r = Some kA
          \<and> (if self_flexible i
              then \<exists>lW. self_lifeWear r = Some lW
                     \<and> getAllowableCompressiveStress sC kA lW True = Inr v
              else \<exists>lF. self_splineLF r = Some lF
                     \<and> getAllowableCompressiveStress sC kA (PyFloat lF) False = Inr v)
          \<and> r' = r\<lparr>self_factoredCompStress := Some v\<rparr>)"
  "assign_compSafetyFactor r = Inr r' \<longleftrightarrow>
     (\<exists>a f v. self_allowCompStress r = Some a \<and> self_factoredCompStress r = Some f
          \<and> pyval_div a f = Inr v
          \<and> r' = r\<lparr>self_compSafetyFactor := Some v\<rparr>)"
  "assign_burstRad i r = Inr r' \<longleftrightarrow>
     r' = r\<lparr>self_burstRad := Some (getBurstingRadialStress (self_t i) (self_phi i) (self_d i)
                                     (self_tW i) (self_f i))\<rparr>"
  "assign_burstCentrifugal pc i r = Inr r' \<longleftrightarrow>
     r' = r\<lparr>self_burstCentrifugal :=
            Some (getBurstingCentrifugalStress pc (self_n i) (self_dOi i) (self_dRi i))\<rparr>"
  "assign_burstTens i r = Inr r' \<longleftrightarrow>
     (\<exists>v. getBurstingTensileStress (self_t i) (self_d i) (self_fE i) (self_y i) = Inr v
          \<and> r' = r\<lparr>self_burstTens := Some v\<rparr>)"
  "assign_burstTotal r = Inr r' \<longleftrightarrow>
     (\<exists>kA kM s1 s2 s3. self_appFactor r = Some kA \<and> self_teethLoadkM r = Some kM
          \<and> self_burstRad r = Some s1 \<and> self_burstCentrifugal r = Some s2
          \<and> self_burstTens r = Some s3
          \<and> r' = r\<lparr>self_burstTotal := Some (getTotalBurstingStress kA kM s1 s2 s3)\<rparr>)"
  "assign_allowBurstStress pc i r = Inr r' \<longleftrightarrow>
     (\<exists>v. getAllowableBurstingStressByHardness pc (self_hardness i) (self_hType i) = Inr v
          \<and> r' = r\<lparr>self_allowBurstStress := Some v\<rparr>)"
  "assign_burstSafetyFactor r = Inr r' \<longleftrightarrow>
     (\<exists>sTTot sTTotMax lF v. self_burstTotal r = Some sTTot
          \<and> self_allowBurstStress r = Some sTTotMax \<and> self_splineLF r = Some lF
          \<and> getBurstingSafetyFactor sTTot sTTotMax lF = Inr v
          \<and> r' = r\<lparr>self_burstSafetyFactor := Some v\<rparr>)"
  by (auto simp: bindE_Inr attr_Inr assign_defs)

lemma calculate_split:
  "calculate pc i r =
     (case run (take k (statements pc i)) r of
        (None, r1) \<Rightarrow> run (drop k (statements pc i)) r1
      | (Some e, r1) \<Rightarrow> (Some e, r1))"
  unfolding calculate_def run_append [symmetric] by simp

lemma take_statements:
  "take 3 (statements pc i) = [assign_shaftStress i, assign_appFactor i, assign_splineLF i]"
  "take 11 (statements pc i) =
     [assign_shaftStress i, assign_appFactor i, assign_splineLF i,
      assign_allowShaftStress pc i, assign_maxShaftStress, assign_shaftSafetyFactor,
      assign_teethLoadkM i, assign_teethShearStress i, assign_maxTeethShearStress,
      assign_teethSafetyFactor, assign_compStress i]"
  "take 13 (statements pc i) =
     [assign_shaftStress i, assign_appFactor i, assign_splineLF i,
      assign_allowShaftStress pc i, assign_maxShaftStress, assign_shaftSafetyFactor,
      assign_teethLoadkM i, assign_teethShearStress i, assign_maxTeethShearStress,
      assign_teethSafetyFactor, assign_compStress i, assign_allowCompStress pc i,
      assign_lifeWear i]"
  by (simp_all add: statements_def)

lemma drop_statements:
  "drop 3 (statements pc i) = assign_allowShaftStress pc i # drop 4 (statements pc i)"
  "drop 11 (statements pc i) = assign_allowCompStress pc i # drop 12 (statements pc i)"
  "drop 13 (statements pc i) = assign_factoredCompStress i # drop 14 (statements pc i)"
  "drop 14 (statements pc i) =
     [assign_compSafetyFactor, assign_burstRad i, assign_burstCentrifugal pc i,
      assign_burstTens i, assign_burstTotal, assign_allowBurstStress pc i,
      assign_burstSafetyFactor]"
  by (simp_all add: statements_def)

lemma before_factored_frame:
  "self_factoredCompStress (snd (run (take 13 (statements pc i)) r)) = self_factoredCompStress r"
  "self_compSafetyFactor (snd (run (take 13 (statements pc i)) r)) = self_compSafetyFactor r"
  unfolding take_statements
  by (rule run_preserves; auto dest!: assign_shape)+

lemma after_factored_frame:
  "self_factoredCompStress (snd (run (drop 14 (statements pc i)) r)) = self_factoredCompStress r"
  "self_compStress (snd (run (drop 14 (statements pc i)) r)) = self_compStress r"
  "self_appFactor (snd (run (drop 14 (statements pc i)) r)) = self_appFactor r"
  unfolding drop_statements
  by (rule run_preserves; auto dest!: assign_shape)+

lemma before_factored_None:
  assumes "run (take 13 (statements pc i)) r = (None, r1)"
  shows "\<exists>sC kA. self_compStress r1 = Some sC \<and> self_appFactor r1 = Some kA
           \<and> self_splineLF r1 = Some (getLifeFactor (self_nCyc i) (self_reversible i))
           \<and> (self_flexible i \<longrightarrow>
                self_lifeWear r1 = Some (getSplineWearLifeFactor (self_nTotal i)))"
  using assms unfolding take_statements run_None_Cons run_None_Nil assign_Inr
  by (elim exE conjE) simp

lemma wear_cases:
  "(getSplineWearLifeFactor n = PyNone) = (10000000000 \<le> n)"
  "(getSplineWearLifeFactor n \<in> {PyFloat 4.0, PyFloat 2.8, PyFloat 2, PyFloat 1.4, PyFloat 1,
       PyFloat 0.7, PyFloat 0.5}) = (n < 10000000000)"
  "getSplineWearLifeFactor n =
     (case firstBelow [(10000, 4.0), (100000, 2.8), (1000000, 2), (10000000, 1.4),
                       (100000000, 1), (1000000000, 0.7), (10000000000, 0.5)] n of
        None \<Rightarrow> PyNone | Some lw \<Rightarrow> PyFloat lw)"
  by (simp_all add: getSplineWearLifeFactor_def)

lemma wear_nonzero: "getSplineWearLifeFactor n = PyFloat lw \<Longrightarrow> lw \<noteq> 0"
  by (auto simp: getSplineWearLifeFactor_def split: if_splits)

lemma wear_firstBelow:
  "getSplineWearLifeFactor n = PyFloat l \<Longrightarrow>
   firstBelow [(10000, 4.0), (100000, 2.8), (1000000, 2), (10000000, 1.4),
               (100000000, 1), (1000000000, 0.7), (10000000000, 0.5)] n = Some l"
  by (auto simp: getSplineWearLifeFactor_def split: if_splits)

lemma life_nonzero: "getLifeFactor n b \<noteq> 0"
  by (simp add: getLifeFactor_def)

lemma err_iff:
  "(getAllowableShearStressByHardness pc h hType = Inl e) =
     (e = UnrecognisedHardnessTypeException \<and> hType \<noteq> ''Brinell'' \<and> hType \<noteq> ''Rockwell C'')"
  "(getAllowableBurstingStressByHardness pc h hType = Inl e) =
     (e = UnrecognisedHardnessTypeException \<and> hType \<noteq> ''Brinell'' \<and> hType \<noteq> ''Rockwell C'')"
  "(getAllowableCompressiveStressForSplines pc h hType toothEnd = Inl UnrecognisedToothEndException) =
     (toothEnd \<noteq> ''Straight'' \<and> toothEnd \<noteq> ''Crowned'')"
  by (auto simp add: getAllowableShearStressByHardness_def
      getAllowableBurstingStressByHardness_def getAllowableCompressiveStressForSplines_def)


text \<open>The definitions that evaluate the pipeline on a given input.\<close>

lemmas eval_defs =
  calculate_def statements_def assign_defs bindE_def attr_def
  solidShaftStress_def hollowShaftStress_def getSplineApplicationFactor_def kTable_def
  getLifeFactor_def maximumShaftStress_def getAllowableShearStressByHardness_def
  getShaftSafetyFactor_def getTeethShearStress_def lookUp_def
  getLoadDistributionFactorSpline_def getCompressiveStress_def
  getAllowableCompressiveStressForSplines_def getSplineWearLifeFactor_def
  getAllowableCompressiveStress_def getBurstingRadialStress_def
  getBurstingCentrifugalStress_def getBurstingTensileStress_def getTotalBurstingStress_def
  getAllowableBurstingStressByHardness_def getBurstingSafetyFactor_def
  py_div_def py_index_def pyval_div_def specConverter_def exampleInput_def unassigned_def

section \<open>Compressive stress of a flexible or a rigid spline\<close>

lemma factored_assigned_value:
  assumes "self_factoredCompStress (snd (calculate pc i unassigned)) = Some v"
  shows "\<exists>sC kA. self_compStress (snd (calculate pc i unassigned)) = Some sC
           \<and> self_appFactor (snd (calculate pc i unassigned)) = Some kA
           \<and> (if self_flexible i
               then \<exists>lw. firstBelow [(10000, 4.0), (100000, 2.8), (1000000, 2),
                            (10000000, 1.4), (100000000, 1), (1000000000, 0.7),
                            (10000000000, 0.5)] (self_nTotal i) = Some lw
                          \<and> v = sC * kA / lw
               else v = sC * kA / (9 * getLifeFactor (self_nCyc i) (self_reversible i)))"
proof -
  obtain e r13 where pre: "run (take 13 (statements pc i)) unassigned = (e, r13)"
    by (cases "run (take 13 (statements pc i)) unassigned") auto
  have none13: "self_factoredCompStress r13 = None"
    using before_factored_frame(1) [of pc i unassigned] pre by (simp add: unassigned_def)
  show ?thesis
  proof (cases e)
    case (Some x)
    then have "calculate pc i unassigned = (Some x, r13)"
      using pre by (simp add: calculate_split [of pc i unassigned 13])
    then show ?thesis using assms none13 by simp
  next
    case None
    then have pre': "run (take 13 (statements pc i)) unassigned = (None, r13)"
      using pre by simp
    from before_factored_None [OF pre'] obtain sC kA where
      r13: "self_compStress r13 = Some sC" "self_appFactor r13 = Some kA"
        "self_splineLF r13 = Some (getLifeFactor (self_nCyc i) (self_reversible i))"
        "self_flexible i \<longrightarrow> self_lifeWear r13 = Some (getSplineWearLifeFactor (self_nTotal i))"
      by blast
    have calc: "calculate pc i unassigned =
        (case assign_factoredCompStress i r13 of
           Inl x \<Rightarrow> (Some x, r13)
         | Inr r14 \<Rightarrow> run (drop 14 (statements pc i)) r14)"
      using pre' by (simp add: calculate_split [of pc i unassigned 13] drop_statements(3))
    show ?thesis
    proof (cases "assign_factoredCompStress i r13")
      case (Inl x)
      then show ?thesis using calc assms none13 by simp
    next
      case (Inr r14)
      then have "\<exists>sC' kA' v'. self_compStress r13 = Some sC' \<and> self_appFactor r13 = Some kA'
          \<and> (if self_flexible i
              then \<exists>lW. self_lifeWear r13 = Some lW
                     \<and> getAllowableCompressiveStress sC' kA' lW True = Inr v'
              else \<exists>lF. self_splineLF r13 = Some lF
                     \<and> getAllowableCompressiveStress sC' kA' (PyFloat lF) False = Inr v')
          \<and> r14 = r13\<lparr>self_factoredCompStress := Some v'\<rparr>"
        by (simp only: assign_Inr(14))
      then obtain sC' kA' v' where
        a: "self_compStress r13 = Some sC'" "self_appFactor r13 = Some kA'"
        and branch: "if self_flexible i
              then \<exists>lW. self_lifeWear r13 = Some lW
                     \<and> getAllowableCompressiveStress sC' kA' lW True = Inr v'
              else \<exists>lF. self_splineLF r13 = Some lF
                     \<and> getAllowableCompressiveStress sC' kA' (PyFloat lF) False = Inr v'"
        and r14: "r14 = r13\<lparr>self_factoredCompStress := Some v'\<rparr>"
        by blast
      have same: "sC' = sC" "kA' = kA" using a r13(1,2) by simp_all
      obtain lW where
        lW: "if self_flexible i then self_lifeWear r13 = Some lW
             else lW = PyFloat (getLifeFactor (self_nCyc i) (self_reversible i))"
        and v': "getAllowableCompressiveStress sC kA lW (self_flexible i) = Inr v'"
      proof (cases "self_flexible i")
        case True
        then obtain l where "self_lifeWear r13 = Some l"
          "getAllowableCompressiveStress sC kA l True = Inr v'"
          using branch same by auto
        then show ?thesis using True that [of l] by simp
      next
        case False
        then have "getAllowableCompressiveStress sC kA
            (PyFloat (getLifeFactor (self_nCyc i) (self_reversible i))) False = Inr v'"
          using branch same r13(3) by auto
        then show ?thesis
          using False that [of "PyFloat (getLifeFactor (self_nCyc i) (self_reversible i))"]
          by simp
      qed
      have fin: "calculate pc i unassigned = run (drop 14 (statements pc i)) r14"
        using calc Inr by simp
      have fields: "self_factoredCompStress (snd (calculate pc i unassigned)) = Some v'"
        "self_compStress (snd (calculate pc i unassigned)) = Some sC"
        "self_appFactor (snd (calculate pc i unassigned)) = Some kA"
        unfolding fin after_factored_frame using r14 r13 by simp_all
      have v2: "getAllowableCompressiveStress sC kA lW (self_flexible i) = Inr v"
        using assms fields(1) v' by simp
      have main: "if self_flexible i
               then \<exists>lw. firstBelow [(10000, 4.0), (100000, 2.8), (1000000, 2),
                            (10000000, 1.4), (100000000, 1), (1000000000, 0.7),
                            (10000000000, 0.5)] (self_nTotal i) = Some lw
                          \<and> v = sC * kA / lw
               else v = sC * kA / (9 * getLifeFactor (self_nCyc i) (self_reversible i))"
      proof (cases "self_flexible i")
        case True
        then have lw: "getSplineWearLifeFactor (self_nTotal i) = lW"
          using lW r13(4) by simp
        from v2 True obtain l where l: "lW = PyFloat l"
          by (cases lW) (simp_all add: getAllowableCompressiveStress_def)
        have "l \<noteq> 0" using wear_nonzero lw l by simp
        then have "v = sC * kA / l"
          using v2 True l by (simp add: getAllowableCompressiveStress_def py_div_def)
        moreover have "firstBelow [(10000, 4.0), (100000, 2.8), (1000000, 2),
                            (10000000, 1.4), (100000000, 1), (1000000000, 0.7),
                            (10000000000, 0.5)] (self_nTotal i) = Some l"
          using lw l by (intro wear_firstBelow) simp
        ultimately have "\<exists>lw. firstBelow [(10000, 4.0), (100000, 2.8), (1000000, 2),
                            (10000000, 1.4), (100000000, 1), (1000000000, 0.7),
                            (10000000000, 0.5)] (self_nTotal i) = Some lw
                          \<and> v = sC * kA / lw"
          by blast
        then show ?thesis using True by (simp only: if_True)
      next
        case False
        then have "v = sC * kA / (9 * getLifeFactor (self_nCyc i) (self_reversible i))"
          using v2 lW life_nonzero [of "self_nCyc i" "self_reversible i"]
          by (simp add: getAllowableCompressiveStress_def py_div_def)
        then show ?thesis using False by (simp only: if_False)
      qed
      show ?thesis
        by (intro exI [of _ sC] exI [of _ kA] conjI fields(2) fields(3) main)
    qed
  qed
qed

lemma firstBelow_wear:
  "firstBelow [(10000, 4.0), (100000, 2.8), (1000000, 2), (10000000, 1.4),
               (100000000, 1), (1000000000, 0.7), (10000000000, 0.5)] n = Some l \<Longrightarrow>
   getSplineWearLifeFactor n = PyFloat l"
  by (auto simp: getSplineWearLifeFactor_def split: if_splits)

lemma factored_total:
  assumes pre: "fst (run (take 13 (statements pc i)) r) = None"
  shows "\<exists>sC kA. self_compStress (snd (calculate pc i r)) = Some sC
           \<and> self_appFactor (snd (calculate pc i r)) = Some kA
           \<and> (if self_flexible i
               then \<forall>lw. firstBelow [(10000, 4.0), (100000, 2.8), (1000000, 2),
                            (10000000, 1.4), (100000000, 1), (1000000000, 0.7),
                            (10000000000, 0.5)] (self_nTotal i) = Some lw \<longrightarrow>
                          self_factoredCompStress (snd (calculate pc i r))
                            = Some (sC * kA / lw)
               else self_factoredCompStress (snd (calculate pc i r))
                      = Some (sC * kA / (9 * getLifeFactor (self_nCyc i) (self_reversible i))))"
proof -
  obtain r13 where pre': "run (take 13 (statements pc i)) r = (None, r13)"
    using pre by (cases "run (take 13 (statements pc i)) r") auto
  from before_factored_None [OF pre'] obtain sC kA where
    r13: "self_compStress r13 = Some sC" "self_appFactor r13 = Some kA"
      "self_splineLF r13 = Some (getLifeFactor (self_nCyc i) (self_reversible i))"
      "self_flexible i \<longrightarrow> self_lifeWear r13 = Some (getSplineWearLifeFactor (self_nTotal i))"
    by blast
  have calc: "calculate pc i r =
      (case assign_factoredCompStress i r13 of
         Inl x \<Rightarrow> (Some x, r13)
       | Inr r14 \<Rightarrow> run (drop 14 (statements pc i)) r14)"
    using pre' by (simp add: calculate_split [of pc i r 13] drop_statements(3))
  have keep: "self_compStress (snd (calculate pc i r)) = Some sC"
    "self_appFactor (snd (calculate pc i r)) = Some kA"
  proof -
    have "self_compStress (snd (calculate pc i r)) = Some sC
        \<and> self_appFactor (snd (calculate pc i r)) = Some kA"
    proof (cases "assign_factoredCompStress i r13")
      case (Inl x)
      then show ?thesis using calc r13 by simp
    next
      case (Inr r14)
      then have "\<exists>v. r14 = r13\<lparr>self_factoredCompStress := Some v\<rparr>"
        by (rule assign_shape(14))
      then show ?thesis
        using calc Inr r13 by (auto simp: after_factored_frame)
    qed
    then show "self_compStress (snd (calculate pc i r)) = Some sC"
      "self_appFactor (snd (calculate pc i r)) = Some kA" by simp_all
  qed
  have assigned: "self_factoredCompStress (snd (calculate pc i r)) = Some v"
    if "assign_factoredCompStress i r13 = Inr (r13\<lparr>self_factoredCompStress := Some v\<rparr>)" for v
    using calc that by (simp add: after_factored_frame)
  have main: "if self_flexible i
               then \<forall>lw. firstBelow [(10000, 4.0), (100000, 2.8), (1000000, 2),
                            (10000000, 1.4), (100000000, 1), (1000000000, 0.7),
                            (10000000000, 0.5)] (self_nTotal i) = Some lw \<longrightarrow>
                          self_factoredCompStress (snd (calculate pc i r))
                            = Some (sC * kA / lw)
               else self_factoredCompStress (snd (calculate pc i r))
                      = Some (sC * kA / (9 * getLifeFactor (self_nCyc i) (self_reversible i)))"
  proof (cases "self_flexible i")
    case True
    have "self_factoredCompStress (snd (calculate pc i r)) = Some (sC * kA / lw)"
      if fb: "firstBelow [(10000, 4.0), (100000, 2.8), (1000000, 2),
                            (10000000, 1.4), (100000000, 1), (1000000000, 0.7),
                            (10000000000, 0.5)] (self_nTotal i) = Some lw" for lw
    proof -
      have w: "getSplineWearLifeFactor (self_nTotal i) = PyFloat lw"
        using fb by (rule firstBelow_wear)
      have nz: "lw \<noteq> 0" using w by (rule wear_nonzero)
      have "assign_factoredCompStress i r13 =
              Inr (r13\<lparr>self_factoredCompStress := Some (sC * kA / lw)\<rparr>)"
        using True r13 w nz
        by (simp add: assign_factoredCompStress_def bindE_def attr_def
            getAllowableCompressiveStress_def py_div_def)
      then show ?thesis by (rule assigned)
    qed
    then show ?thesis using True by (simp only: if_True) blast
  next
    case False
    have "assign_factoredCompStress i r13 =
            Inr (r13\<lparr>self_factoredCompStress :=
                   Some (sC * kA / (9 * getLifeFactor (self_nCyc i) (self_reversible i)))\<rparr>)"
      using False r13 life_nonzero [of "self_nCyc i" "self_reversible i"]
      by (simp add: assign_factoredCompStress_def bindE_def attr_def
          getAllowableCompressiveStress_def py_div_def)
    then have "self_factoredCompStress (snd (calculate pc i r))
                 = Some (sC * kA / (9 * getLifeFactor (self_nCyc i) (self_reversible i)))"
      by (rule assigned)
    then show ?thesis using False by (simp only: if_False)
  qed
  show ?thesis
    by (intro exI [of _ sC] exI [of _ kA] conjI keep main)
qed

text \<open>
  Claim C5. Whenever the thirteen statements before it complete, the pipeline assigns the
  factored compressive stress, and no later statement changes it or the two attributes it
  is computed from. For a flexible spline it is the compressive stress times Ka divided by
  Lw, where Lw is the value of the first of the bounds 1e4, 1e5, 1e6, 1e7, 1e8, 1e9, 1e10
  strictly above the total revolutions, of 4.0, 2.8, 2.0, 1.4, 1.0, 0.7, 0.5; for a rigid
  spline it is the compressive stress times Ka divided by 9 times the life factor Lf of
  the cycle count. Conversely, on an object whose attributes are not yet assigned, a
  factored compressive stress that the pipeline has assigned has that value. The
  compressive stress and Ka are the attributes of those names.
\<close>

theorem factoredCompStress_formula:
  "(fst (run (take 13 (statements pc i)) r) = None \<longrightarrow>
      (\<exists>sC kA. self_compStress (snd (calculate pc i r)) = Some sC
           \<and> self_appFactor (snd (calculate pc i r)) = Some kA
           \<and> (if self_flexible i
               then \<forall>lw. firstBelow [(10000, 4.0), (100000, 2.8), (1000000, 2),
                            (10000000, 1.4), (100000000, 1), (1000000000, 0.7),
                            (10000000000, 0.5)] (self_nTotal i) = Some lw \<longrightarrow>
                          self_factoredCompStress (snd (calculate pc i r))
                            = Some (sC * kA / lw)
               else self_factoredCompStress (snd (calculate pc i r))
                      = Some (sC * kA / (9 * getLifeFactor (self_nCyc i) (self_reversible i))))))
   \<and> (self_factoredCompStress (snd (calculate pc j unassigned)) = Some v \<longrightarrow>
      (\<exists>sC kA. self_compStress (snd (calculate pc j unassigned)) = Some sC
           \<and> self_appFactor (snd (calculate pc j unassigned)) = Some kA
           \<and> (if self_flexible j
               then \<exists>lw. firstBelow [(10000, 4.0), (100000, 2.8), (1000000, 2),
                            (10000000, 1.4), (100000000, 1), (1000000000, 0.7),
                            (10000000000, 0.5)] (self_nTotal j) = Some lw
                          \<and> v = sC * kA / lw
               else v = sC * kA / (9 * getLifeFactor (self_nCyc j) (self_reversible j)))))"
proof (intro conjI impI)
  assume "fst (run (take 13 (statements pc i)) r) = None"
  then show "\<exists>sC kA. self_compStress (snd (calculate pc i r)) = Some sC
           \<and> self_appFactor (snd (calculate pc i r)) = Some kA
           \<and> (if self_flexible i
               then \<forall>lw. firstBelow [(10000, 4.0), (100000, 2.8), (1000000, 2),
                            (10000000, 1.4), (100000000, 1), (1000000000, 0.7),
                            (10000000000, 0.5)] (self_nTotal i) = Some lw \<longrightarrow>
                          self_factoredCompStress (snd (calculate pc i r))
                            = Some (sC * kA / lw)
               else self_factoredCompStress (snd (calculate pc i r))
                      = Some (sC * kA / (9 * getLifeFactor (self_nCyc i) (self_reversible i))))"
    by (rule factored_total)
next
  assume "self_factoredCompStress (snd (calculate pc j unassigned)) = Some v"
  then show "\<exists>sC kA. self_compStress (snd (calculate pc j unassigned)) = Some sC
           \<and> self_appFactor (snd (calculate pc j unassigned)) = Some kA
           \<and> (if self_flexible j
               then \<exists>lw. firstBelow [(10000, 4.0), (100000, 2.8), (1000000, 2),
                            (10000000, 1.4), (100000000, 1), (1000000000, 0.7),
                            (10000000000, 0.5)] (self_nTotal j) = Some lw
                          \<and> v = sC * kA / lw
               else v = sC * kA / (9 * getLifeFactor (self_nCyc j) (self_reversible j)))"
    by (rule factored_assigned_value)
qed

text \<open>
  The input set of the entry form's defaults, flexible with Lw = 0.5, and the same input
  set for a rigid spline, with Lf = 1.
\<close>

theorem factoredCompStress_formula_witness:
  "fst (run (take 13 (statements specConverter exampleInput)) unassigned) = None
   \<and> (\<exists>sC kA. self_compStress (snd (calculate specConverter exampleInput unassigned)) = Some sC
           \<and> self_appFactor (snd (calculate specConverter exampleInput unassigned)) = Some kA
           \<and> (if self_flexible exampleInput
               then \<forall>lw. firstBelow [(10000, 4.0), (100000, 2.8), (1000000, 2),
                            (10000000, 1.4), (100000000, 1), (1000000000, 0.7),
                            (10000000000, 0.5)] (self_nTotal exampleInput) = Some lw \<longrightarrow>
                          self_factoredCompStress (snd (calculate specConverter exampleInput unassigned))
                            = Some (sC * kA / lw)
               else self_factoredCompStress (snd (calculate specConverter exampleInput unassigned))
                      = Some (sC * kA / (9 * getLifeFactor (self_nCyc exampleInput) (self_reversible exampleInput)))))
   \<and> self_factoredCompStress (snd (calculate specConverter exampleInput unassigned))
       = Some (20000000 / 3)
   \<and> (\<exists>sC kA. self_compStress (snd (calculate specConverter exampleInput unassigned)) = Some sC
           \<and> self_appFactor (snd (calculate specConverter exampleInput unassigned)) = Some kA
           \<and> (if self_flexible exampleInput
               then \<exists>lw. firstBelow [(10000, 4.0), (100000, 2.8), (1000000, 2),
                            (10000000, 1.4), (100000000, 1), (1000000000, 0.7),
                            (10000000000, 0.5)] (self_nTotal exampleInput) = Some lw
                          \<and> 20000000 / 3 = sC * kA / lw
               else 20000000 / 3 = sC * kA / (9 * getLifeFactor (self_nCyc exampleInput) (self_reversible exampleInput))))
   \<and> fst (run (take 13 (statements specConverter (exampleInput\<lparr>self_flexible := False\<rparr>))) unassigned) = None
   \<and> (\<exists>sC kA. self_compStress (snd (calculate specConverter (exampleInput\<lparr>self_flexible := False\<rparr>) unassigned)) = Some sC
           \<and> self_appFactor (snd (calculate specConverter (exampleInput\<lparr>self_flexible := False\<rparr>) unassigned)) = Some kA
           \<and> (if self_flexible (exampleInput\<lparr>self_flexible := False\<rparr>)
               then \<forall>lw. firstBelow [(10000, 4.0), (100000, 2.8), (1000000, 2),
                            (10000000, 1.4), (100000000, 1), (1000000000, 0.7),
                            (10000000000, 0.5)] (self_nTotal (exampleInput\<lparr>self_flexible := False\<rparr>)) = Some lw \<longrightarrow>
                          self_factoredCompStress (snd (calculate specConverter (exampleInput\<lparr>self_flexible := False\<rparr>) unassigned))
                            = Some (sC * kA / lw)
               else self_factoredCompStress (snd (calculate specConverter (exampleInput\<lparr>self_flexible := False\<rparr>) unassigned))
                      = Some (sC * kA / (9 * getLifeFactor (self_nCyc (exampleInput\<lparr>self_flexible := False\<rparr>)) (self_reversible (exampleInput\<lparr>self_flexible := False\<rparr>))))))
   \<and> self_factoredCompStress (snd (calculate specConverter (exampleInput\<lparr>self_flexible := False\<rparr>) unassigned))
       = Some (10000000 / 27)"
proof -
  have f1: "fst (run (take 13 (statements specConverter exampleInput)) unassigned) = None"
    by (simp add: eval_defs)
  have f2: "self_factoredCompStress (snd (calculate specConverter exampleInput unassigned))
             = Some (20000000 / 3)"
    by (simp add: eval_defs)
  have r1: "fst (run (take 13 (statements specConverter (exampleInput\<lparr>self_flexible := False\<rparr>))) unassigned) = None"
    by (simp add: eval_defs)
  have r2: "self_factoredCompStress (snd (calculate specConverter (exampleInput\<lparr>self_flexible := False\<rparr>) unassigned))
       = Some (10000000 / 27)"
    by (simp add: eval_defs)
  show ?thesis
    by (intro conjI f1 f2 r1 r2
        factoredCompStress_formula [THEN conjunct1, THEN mp, OF f1]
        factoredCompStress_formula [THEN conjunct2, THEN mp, OF f2]
        factoredCompStress_formula [THEN conjunct1, THEN mp, OF r1])
qed

text \<open>
  Claim C9. \<^verbatim>\<open>getSplineWearLifeFactor\<close> returns no value exactly for 1e10 revolutions or
  more, and one of the seven tabulated values below that. For a flexible spline with
  1e10 revolutions or more the pipeline ends with an exception: the factored compressive
  stress and the compressive safety factor are never assigned, and when the statements
  before the factored stress complete, the exception is the \<^verbatim>\<open>TypeError\<close> of dividing by
  \<^verbatim>\<open>None\<close>.
\<close>

theorem wearLifeFactor_fallthrough:
  "(getSplineWearLifeFactor n = PyNone) = (10000000000 \<le> n)
   \<and> (getSplineWearLifeFactor n \<in> {PyFloat 4.0, PyFloat 2.8, PyFloat 2, PyFloat 1.4,
         PyFloat 1, PyFloat 0.7, PyFloat 0.5}) = (n < 10000000000)
   \<and> (self_flexible i \<and> 10000000000 \<le> self_nTotal i \<longrightarrow>
        fst (calculate pc i r) \<noteq> None
        \<and> self_factoredCompStress (snd (calculate pc i r)) = self_factoredCompStress r
        \<and> self_compSafetyFactor (snd (calculate pc i r)) = self_compSafetyFactor r
        \<and> (fst (run (take 13 (statements pc i)) r) = None \<longrightarrow>
             fst (calculate pc i r) = Some TypeError))"
proof -
  have pipeline: "fst (calculate pc i r) \<noteq> None
        \<and> self_factoredCompStress (snd (calculate pc i r)) = self_factoredCompStress r
        \<and> self_compSafetyFactor (snd (calculate pc i r)) = self_compSafetyFactor r
        \<and> (fst (run (take 13 (statements pc i)) r) = None \<longrightarrow>
             fst (calculate pc i r) = Some TypeError)"
    if flex: "self_flexible i" and big: "10000000000 \<le> self_nTotal i"
  proof -
    obtain e r13 where pre: "run (take 13 (statements pc i)) r = (e, r13)"
      by (cases "run (take 13 (statements pc i)) r") auto
    have frame: "self_factoredCompStress r13 = self_factoredCompStress r"
      "self_compSafetyFactor r13 = self_compSafetyFactor r"
      using before_factored_frame [of pc i r] pre by simp_all
    show ?thesis
    proof (cases e)
      case (Some x)
      then have "calculate pc i r = (Some x, r13)"
        using pre by (simp add: calculate_split [of pc i r 13])
      then show ?thesis using frame pre Some by simp
    next
      case None
      then have pre': "run (take 13 (statements pc i)) r = (None, r13)"
        using pre by simp
      from before_factored_None [OF pre'] flex obtain sC kA where
        r13: "self_compStress r13 = Some sC" "self_appFactor r13 = Some kA"
          "self_lifeWear r13 = Some (getSplineWearLifeFactor (self_nTotal i))"
        by blast
      have "getSplineWearLifeFactor (self_nTotal i) = PyNone"
        using big by (simp add: wear_cases(1))
      then have "assign_factoredCompStress i r13 = Inl TypeError"
        using r13 flex
        by (simp add: assign_factoredCompStress_def bindE_def attr_def
            getAllowableCompressiveStress_def)
      then have "calculate pc i r = (Some TypeError, r13)"
        using pre' by (simp add: calculate_split [of pc i r 13] drop_statements(3))
      then show ?thesis using frame by simp
    qed
  qed
  show ?thesis
    using wear_cases(1,2) [of n] pipeline by blast
qed


text \<open>The defaults of the entry form with 1e10 revolutions.\<close>

theorem wearLifeFactor_fallthrough_witness:
  "self_flexible (exampleInput\<lparr>self_nTotal := 10000000000\<rparr>)
   \<and> 10000000000 \<le> self_nTotal (exampleInput\<lparr>self_nTotal := 10000000000\<rparr>)
   \<and> fst (calculate specConverter (exampleInput\<lparr>self_nTotal := 10000000000\<rparr>) unassigned)
       = Some TypeError
   \<and> self_factoredCompStress
        (snd (calculate specConverter (exampleInput\<lparr>self_nTotal := 10000000000\<rparr>) unassigned))
       = None
   \<and> self_compSafetyFactor
        (snd (calculate specConverter (exampleInput\<lparr>self_nTotal := 10000000000\<rparr>) unassigned))
       = None"
proof -
  have h: "self_flexible (exampleInput\<lparr>self_nTotal := 10000000000\<rparr>)"
    "10000000000 \<le> self_nTotal (exampleInput\<lparr>self_nTotal := 10000000000\<rparr>)"
    by (simp_all add: exampleInput_def)
  have p: "fst (run (take 13 (statements specConverter
              (exampleInput\<lparr>self_nTotal := 10000000000\<rparr>))) unassigned) = None"
    by (simp add: eval_defs)
  have u: "self_factoredCompStress unassigned = None" "self_compSafetyFactor unassigned = None"
    by (simp_all add: unassigned_def)
  show ?thesis
    using wearLifeFactor_fallthrough
      [where i = "exampleInput\<lparr>self_nTotal := 10000000000\<rparr>" and pc = specConverter
         and r = unassigned] h p u
    by simp
qed

section \<open>Unrecognised hardness type and tooth end\<close>

lemma before_lookup_frames:
  "self_allowShaftStress (snd (run (take 3 (statements pc i)) r)) = self_allowShaftStress r"
  "self_shaftSafetyFactor (snd (run (take 3 (statements pc i)) r)) = self_shaftSafetyFactor r"
  "self_teethSafetyFactor (snd (run (take 3 (statements pc i)) r)) = self_teethSafetyFactor r"
  "self_compSafetyFactor (snd (run (take 3 (statements pc i)) r)) = self_compSafetyFactor r"
  "self_burstSafetyFactor (snd (run (take 3 (statements pc i)) r)) = self_burstSafetyFactor r"
  "self_allowCompStress (snd (run (take 11 (statements pc i)) r)) = self_allowCompStress r"
  "self_compSafetyFactor (snd (run (take 11 (statements pc i)) r)) = self_compSafetyFactor r"
  "self_burstSafetyFactor (snd (run (take 11 (statements pc i)) r)) = self_burstSafetyFactor r"
  unfolding take_statements
  by (rule run_preserves; auto dest!: assign_shape)+

text \<open>
  Claim C7, as amended. The shear and the bursting lookup raise only the
  unrecognised-hardness-type exception, and exactly when the hardness type is neither
  Brinell nor Rockwell C; the compressive lookup raises the unrecognised-tooth-end
  exception exactly when the tooth end is neither Straight nor Crowned. In the pipeline the
  exception is raised at the lookup and ends the method there: when the statements before
  the lookup complete, \<^verbatim>\<open>calculate\<close> ends with that exception, nothing at or after the
  lookup is assigned, and the attributes that the statements before the lookup assigned
  stay on the object. The constructor, which runs the pipeline, then raises the same
  exception, and its caller has no object.
\<close>

theorem unrecognised_errors:
  "(getAllowableShearStressByHardness pc h hType = Inl e) =
     (e = UnrecognisedHardnessTypeException \<and> hType \<noteq> ''Brinell'' \<and> hType \<noteq> ''Rockwell C'')
   \<and> (getAllowableBurstingStressByHardness pc h hType = Inl e) =
     (e = UnrecognisedHardnessTypeException \<and> hType \<noteq> ''Brinell'' \<and> hType \<noteq> ''Rockwell C'')
   \<and> (getAllowableCompressiveStressForSplines pc h hType toothEnd
        = Inl UnrecognisedToothEndException) =
     (toothEnd \<noteq> ''Straight'' \<and> toothEnd \<noteq> ''Crowned'')
   \<and> (fst (run (take 3 (statements pc i)) r) = None
        \<and> self_hType i \<noteq> ''Brinell'' \<and> self_hType i \<noteq> ''Rockwell C'' \<longrightarrow>
      calculate pc i r =
        (Some UnrecognisedHardnessTypeException, snd (run (take 3 (statements pc i)) r))
      \<and> self_allowShaftStress (snd (calculate pc i r)) = self_allowShaftStress r
      \<and> self_shaftSafetyFactor (snd (calculate pc i r)) = self_shaftSafetyFactor r
      \<and> self_teethSafetyFactor (snd (calculate pc i r)) = self_teethSafetyFactor r
      \<and> self_compSafetyFactor (snd (calculate pc i r)) = self_compSafetyFactor r
      \<and> self_burstSafetyFactor (snd (calculate pc i r)) = self_burstSafetyFactor r)
   \<and> (fst (run (take 11 (statements pc j)) r) = None
        \<and> self_toothEnd j \<noteq> ''Straight'' \<and> self_toothEnd j \<noteq> ''Crowned'' \<longrightarrow>
      calculate pc j r =
        (Some UnrecognisedToothEndException, snd (run (take 11 (statements pc j)) r))
      \<and> self_allowCompStress (snd (calculate pc j r)) = self_allowCompStress r
      \<and> self_compSafetyFactor (snd (calculate pc j r)) = self_compSafetyFactor r
      \<and> self_burstSafetyFactor (snd (calculate pc j r)) = self_burstSafetyFactor r)
   \<and> (fst (calculate pc k unassigned) = Some e) = (init pc k True = Inl e)"
proof -
  have hard0: "calculate pc i r =
        (Some UnrecognisedHardnessTypeException, snd (run (take 3 (statements pc i)) r))"
    if "fst (run (take 3 (statements pc i)) r) = None"
      and "self_hType i \<noteq> ''Brinell''" and "self_hType i \<noteq> ''Rockwell C''"
  proof -
    have pre: "run (take 3 (statements pc i)) r = (None, snd (run (take 3 (statements pc i)) r))"
      using that(1) by (simp add: prod_eq_iff)
    have "assign_allowShaftStress pc i r3 = Inl UnrecognisedHardnessTypeException" for r3
      using that(2,3)
      by (simp add: assign_allowShaftStress_def bindE_def getAllowableShearStressByHardness_def)
    then show ?thesis
      by (subst calculate_split [of pc i r 3], subst pre) (simp add: drop_statements(1))
  qed
  have hard: "calculate pc i r =
        (Some UnrecognisedHardnessTypeException, snd (run (take 3 (statements pc i)) r))
      \<and> self_allowShaftStress (snd (calculate pc i r)) = self_allowShaftStress r
      \<and> self_shaftSafetyFactor (snd (calculate pc i r)) = self_shaftSafetyFactor r
      \<and> self_teethSafetyFactor (snd (calculate pc i r)) = self_teethSafetyFactor r
      \<and> self_compSafetyFactor (snd (calculate pc i r)) = self_compSafetyFactor r
      \<and> self_burstSafetyFactor (snd (calculate pc i r)) = self_burstSafetyFactor r"
    if "fst (run (take 3 (statements pc i)) r) = None"
      and "self_hType i \<noteq> ''Brinell''" and "self_hType i \<noteq> ''Rockwell C''"
    using hard0 [OF that] by (simp add: before_lookup_frames)
  have tooth0: "calculate pc j r =
        (Some UnrecognisedToothEndException, snd (run (take 11 (statements pc j)) r))"
    if "fst (run (take 11 (statements pc j)) r) = None"
      and "self_toothEnd j \<noteq> ''Straight''" and "self_toothEnd j \<noteq> ''Crowned''"
  proof -
    have pre: "run (take 11 (statements pc j)) r = (None, snd (run (take 11 (statements pc j)) r))"
      using that(1) by (simp add: prod_eq_iff)
    have "assign_allowCompStress pc j r11 = Inl UnrecognisedToothEndException" for r11
      using that(2,3)
      by (simp add: assign_allowCompStress_def bindE_def
          getAllowableCompressiveStressForSplines_def)
    then show ?thesis
      by (subst calculate_split [of pc j r 11], subst pre) (simp add: drop_statements(2))
  qed
  have tooth: "calculate pc j r =
        (Some UnrecognisedToothEndException, snd (run (take 11 (statements pc j)) r))
      \<and> self_allowCompStress (snd (calculate pc j r)) = self_allowCompStress r
      \<and> self_compSafetyFactor (snd (calculate pc j r)) = self_compSafetyFactor r
      \<and> self_burstSafetyFactor (snd (calculate pc j r)) = self_burstSafetyFactor r"
    if "fst (run (take 11 (statements pc j)) r) = None"
      and "self_toothEnd j \<noteq> ''Straight''" and "self_toothEnd j \<noteq> ''Crowned''"
    using tooth0 [OF that] by (simp add: before_lookup_frames)
  have ini: "(fst (calculate pc k unassigned) = Some e) = (init pc k True = Inl e)"
    by (cases "calculate pc k unassigned") (auto simp: init_def split: option.splits)
  show ?thesis
    using err_iff(1) [of pc h hType e] err_iff(2) [of pc h hType e]
      err_iff(3) [of pc h hType toothEnd] hard tooth ini
    by blast
qed


text \<open>The defaults of the entry form with hardness type Vickers, and with a round tooth end.\<close>

theorem unrecognised_errors_witness:
  "fst (run (take 3 (statements specConverter (exampleInput\<lparr>self_hType := ''Vickers''\<rparr>)))
          unassigned) = None
   \<and> self_hType (exampleInput\<lparr>self_hType := ''Vickers''\<rparr>) \<noteq> ''Brinell''
   \<and> self_hType (exampleInput\<lparr>self_hType := ''Vickers''\<rparr>) \<noteq> ''Rockwell C''
   \<and> calculate specConverter (exampleInput\<lparr>self_hType := ''Vickers''\<rparr>) unassigned =
       (Some UnrecognisedHardnessTypeException,
        snd (run (take 3 (statements specConverter (exampleInput\<lparr>self_hType := ''Vickers''\<rparr>)))
               unassigned))
   \<and> fst (run (take 11 (statements specConverter (exampleInput\<lparr>self_toothEnd := ''Round''\<rparr>)))
          unassigned) = None
   \<and> self_toothEnd (exampleInput\<lparr>self_toothEnd := ''Round''\<rparr>) \<noteq> ''Straight''
   \<and> self_toothEnd (exampleInput\<lparr>self_toothEnd := ''Round''\<rparr>) \<noteq> ''Crowned''
   \<and> calculate specConverter (exampleInput\<lparr>self_toothEnd := ''Round''\<rparr>) unassigned =
       (Some UnrecognisedToothEndException,
        snd (run (take 11 (statements specConverter (exampleInput\<lparr>self_toothEnd := ''Round''\<rparr>)))
               unassigned))"
proof -
  have h1: "fst (run (take 3 (statements specConverter (exampleInput\<lparr>self_hType := ''Vickers''\<rparr>)))
          unassigned) = None"
    by (simp add: eval_defs)
  have h2: "self_hType (exampleInput\<lparr>self_hType := ''Vickers''\<rparr>) \<noteq> ''Brinell''"
    "self_hType (exampleInput\<lparr>self_hType := ''Vickers''\<rparr>) \<noteq> ''Rockwell C''"
    by simp_all
  have h3: "fst (run (take 11 (statements specConverter (exampleInput\<lparr>self_toothEnd := ''Round''\<rparr>)))
          unassigned) = None"
    by (simp add: eval_defs)
  have h4: "self_toothEnd (exampleInput\<lparr>self_toothEnd := ''Round''\<rparr>) \<noteq> ''Straight''"
    "self_toothEnd (exampleInput\<lparr>self_toothEnd := ''Round''\<rparr>) \<noteq> ''Crowned''"
    by simp_all
  show ?thesis
    using unrecognised_errors [where pc = specConverter and r = unassigned
        and i = "exampleInput\<lparr>self_hType := ''Vickers''\<rparr>"
        and j = "exampleInput\<lparr>self_toothEnd := ''Round''\<rparr>"] h1 h2 h3 h4
    by blast
qed

text \<open>
  Claim C7, as stated, fails in its last part: with hardness type Vickers the pipeline ends
  with the exception at the fourth statement, and the application factor 2.0 and the life
  factor 1.0, assigned before it, are on the object, which is no longer as the constructor
  stored it.
\<close>

theorem partial_attributes_counterexample:
  "fst (calculate specConverter (exampleInput\<lparr>self_hType := ''Vickers''\<rparr>) unassigned)
     = Some UnrecognisedHardnessTypeException
   \<and> self_appFactor (snd (calculate specConverter (exampleInput\<lparr>self_hType := ''Vickers''\<rparr>)
        unassigned)) = Some 2
   \<and> self_splineLF (snd (calculate specConverter (exampleInput\<lparr>self_hType := ''Vickers''\<rparr>)
        unassigned)) = Some 1
   \<and> snd (calculate specConverter (exampleInput\<lparr>self_hType := ''Vickers''\<rparr>) unassigned)
       \<noteq> unassigned"
proof -
  have a: "fst (calculate specConverter (exampleInput\<lparr>self_hType := ''Vickers''\<rparr>) unassigned)
     = Some UnrecognisedHardnessTypeException"
    "self_appFactor (snd (calculate specConverter (exampleInput\<lparr>self_hType := ''Vickers''\<rparr>)
        unassigned)) = Some 2"
    "self_splineLF (snd (calculate specConverter (exampleInput\<lparr>self_hType := ''Vickers''\<rparr>)
        unassigned)) = Some 1"
    by (simp_all add: eval_defs)
  have "self_appFactor unassigned = None" by (simp add: unassigned_def)
  then have "snd (calculate specConverter (exampleInput\<lparr>self_hType := ''Vickers''\<rparr>) unassigned)
       \<noteq> unassigned"
    using a(2) by auto
  then show ?thesis using a by simp
qed

section \<open>Determinism\<close>

lemma run_settled: "\<forall>p\<in>set pre. p b = Inr b \<Longrightarrow> run pre b = (None, b)"
  by (induction pre) simp_all

lemma rerun:
  "settles pre suf \<Longrightarrow> \<forall>p\<in>set pre. p b = Inr b \<Longrightarrow> run suf b = (e, b')
     \<Longrightarrow> run (pre @ suf) b' = (e, b')"
proof (induction suf arbitrary: pre b)
  case Nil
  then show ?case by (simp add: run_settled)
next
  case (Cons s suf)
  show ?case
  proof (cases "s b")
    case (Inl x)
    then show ?thesis using Cons.prems by (simp add: run_append run_settled)
  next
    case (Inr b1)
    have st: "settles (pre @ [s]) suf" using Cons.prems(1) by simp
    have all: "\<forall>p\<in>set (pre @ [s]). p b1 = Inr b1"
      using Cons.prems(1,2) Inr by auto
    have "run suf b1 = (e, b')" using Cons.prems(3) Inr by simp
    from Cons.IH [OF st all this] show ?thesis by simp
  qed
qed

lemma update_same:
  "(r = r\<lparr>self_shaftStress := v0\<rparr>) = (self_shaftStress r = v0)"
  "(r = r\<lparr>self_appFactor := v1\<rparr>) = (self_appFactor r = v1)"
  "(r = r\<lparr>self_splineLF := v2\<rparr>) = (self_splineLF r = v2)"
  "(r = r\<lparr>self_allowShaftStress := v3\<rparr>) = (self_allowShaftStress r = v3)"
  "(r = r\<lparr>self_maxShaftStress := v4\<rparr>) = (self_maxShaftStress r = v4)"
  "(r = r\<lparr>self_shaftSafetyFactor := v5\<rparr>) = (self_shaftSafetyFactor r = v5)"
  "(r = r\<lparr>self_teethLoadkM := v6\<rparr>) = (self_teethLoadkM r = v6)"
  "(r = r\<lparr>self_teethShearStress := v7\<rparr>) = (self_teethShearStress r = v7)"
  "(r = r\<lparr>self_maxTeethShearStress := v8\<rparr>) = (self_maxTeethShearStress r = v8)"
  "(r = r\<lparr>self_teethSafetyFactor := v9\<rparr>) = (self_teethSafetyFactor r = v9)"
  "(r = r\<lparr>self_compStress := v10\<rparr>) = (self_compStress r = v10)"
  "(r = r\<lparr>self_allowCompStress := v11\<rparr>) = (self_allowCompStress r = v11)"
  "(r = r\<lparr>self_lifeWear := v12\<rparr>) = (self_lifeWear r = v12)"
  "(r = r\<lparr>self_factoredCompStress := v13\<rparr>) = (self_factoredCompStress r = v13)"
  "(r = r\<lparr>self_compSafetyFactor := v14\<rparr>) = (self_compSafetyFactor r = v14)"
  "(r = r\<lparr>self_burstRad := v15\<rparr>) = (self_burstRad r = v15)"
  "(r = r\<lparr>self_burstCentrifugal := v16\<rparr>) = (self_burstCentrifugal r = v16)"
  "(r = r\<lparr>self_burstTens := v17\<rparr>) = (self_burstTens r = v17)"
  "(r = r\<lparr>self_burstTotal := v18\<rparr>) = (self_burstTotal r = v18)"
  "(r = r\<lparr>self_allowBurstStress := v19\<rparr>) = (self_allowBurstStress r = v19)"
  "(r = r\<lparr>self_burstSafetyFactor := v20\<rparr>) = (self_burstSafetyFactor r = v20)"
  by (cases r; simp)+

lemma settled_iff:
  "assign_shaftStress i r = Inr r \<longleftrightarrow>
     (\<exists>v. (if self_dH i = 0 then solidShaftStress (self_t i) (self_dRe i)
            else hollowShaftStress (self_t i) (self_dRe i) (self_dH i)) = Inr v
          \<and> self_shaftStress r = Some v)"
  "assign_appFactor i r = Inr r \<longleftrightarrow>
     (\<exists>v. getSplineApplicationFactor (self_supplyShockType i) (self_loadShockType i) = Inr v
          \<and> self_appFactor r = Some v)"
  "assign_splineLF i r = Inr r \<longleftrightarrow>
     self_splineLF r = Some (getLifeFactor (self_nCyc i) (self_reversible i))"
  "assign_allowShaftStress pc i r = Inr r \<longleftrightarrow>
     (\<exists>v. getAllowableShearStressByHardness pc (self_hardness i) (self_hType i) = Inr v
          \<and> self_allowShaftStress r = Some v)"
  "assign_maxShaftStress r = Inr r \<longleftrightarrow>
     (\<exists>sS kA lF v. self_shaftStress r = Some sS \<and> self_appFactor r = Some kA
          \<and> self_splineLF r = Some lF \<and> maximumShaftStress sS kA lF = Inr v
          \<and> self_maxShaftStress r = Some v)"
  "assign_shaftSafetyFactor r = Inr r \<longleftrightarrow>
     (\<exists>m a v. self_maxShaftStress r = Some m \<and> self_allowShaftStress r = Some a
          \<and> getShaftSafetyFactor m a = Inr v
          \<and> self_shaftSafetyFactor r = Some v)"
  "assign_teethLoadkM i r = Inr r \<longleftrightarrow>
     (\<exists>v. getLoadDistributionFactorSpline (self_relativeMisalignment i) (self_fE i) = Inr v
          \<and> self_teethLoadkM r = Some v)"
  "assign_teethShearStress i r = Inr r \<longleftrightarrow>
     (\<exists>kM v. self_teethLoadkM r = Some kM
          \<and> getTeethShearStress (self_t i) kM (self_d i) (self_z i) (self_fE i) (self_tC i) = Inr v
          \<and> self_teethShearStress r = Some v)"
  "assign_maxTeethShearStress r = Inr r \<longleftrightarrow>
     (\<exists>sS kA lF v. self_teethShearStress r = Some sS \<and> self_appFactor r = Some kA
          \<and> self_splineLF r = Some lF \<and> maximumShaftStress sS kA lF = Inr v
          \<and> self_maxTeethShearStress r = Some v)"
  "assign_teethSafetyFactor r = Inr r \<longleftrightarrow>
     (\<exists>m a v. self_maxTeethShearStress r = Some m \<and> self_allowShaftStress r = Some a
          \<and> getShaftSafetyFactor m a = Inr v
          \<and> self_teethSafetyFactor r = Some v)"
  "assign_compStress i r = Inr r \<longleftrightarrow>
     (\<exists>kM v. self_teethLoadkM r = Some kM
          \<and> getCompressiveStress (self_t i) kM (self_d i) (self_z i) (self_fE i) (self_h i) = Inr v
          \<and> self_compStress r = Some v)"
  "assign_allowCompStress pc i r = Inr r \<longleftrightarrow>
     (\<exists>v. getAllowableCompressiveStressForSplines pc (self_hardness i) (self_hType i)
             (self_toothEnd i) = Inr v
          \<and> self_allowCompStress r = Some v)"
  "assign_lifeWear i r = Inr r \<longleftrightarrow>
     (self_flexible i \<longrightarrow> self_lifeWear r = Some (getSplineWearLifeFactor (self_nTotal i)))"
  "assign_factoredCompStress i r = Inr r \<longleftrightarrow>
     (\<exists>sC kA v. self_compStress r = Some sC \<and> self_appFactor r = Some kA
          \<and> (if self_flexible i
              then \<exists>lW. self_lifeWear r = Some lW
                     \<and> getAllowableCompressiveStress sC kA lW True = Inr v
              else \<exists>lF. self_splineLF r = Some lF
                     \<and> getAllowableCompressiveStress sC kA (PyFloat lF) False = Inr v)
          \<and> self_factoredCompStress r = Some v)"
  "assign_compSafetyFactor r = Inr r \<longleftrightarrow>
     (\<exists>a f v. self_allowCompStress r = Some a \<and> self_factoredCompStress r = Some f
          \<and> pyval_div a f = Inr v
          \<and> self_compSafetyFactor r = Some v)"
  "assign_burstRad i r = Inr r \<longleftrightarrow>
     self_burstRad r = Some (getBurstingRadialStress (self_t i) (self_phi i) (self_d i)
                                     (self_tW i) (self_f i))"
  "assign_burstCentrifugal pc i r = Inr r \<longleftrightarrow>
     self_burstCentrifugal r =
            Some (getBurstingCentrifugalStress pc (self_n i) (self_dOi i) (self_dRi i))"
  "assign_burstTens i r = Inr r \<longleftrightarrow>
     (\<exists>v. getBurstingTensileStress (self_t i) (self_d i) (self_fE i) (self_y i) = Inr v
          \<and> self_burstTens r = Some v)"
  "assign_burstTotal r = Inr r \<longleftrightarrow>
     (\<exists>kA kM s1 s2 s3. self_appFactor r = Some kA \<and> self_teethLoadkM r = Some kM
          \<and> self_burstRad r = Some s1 \<and> self_burstCentrifugal r = Some s2
          \<and> self_burstTens r = Some s3
          \<and> self_burstTotal r = Some (getTotalBurstingStress kA kM s1 s2 s3))"
  "assign_allowBurstStress pc i r = Inr r \<longleftrightarrow>
     (\<exists>v. getAllowableBurstingStressByHardness pc (self_hardness i) (self_hType i) = Inr v
          \<and> self_allowBurstStress r = Some v)"
  "assign_burstSafetyFactor r = Inr r \<longleftrightarrow>
     (\<exists>sTTot sTTotMax lF v. self_burstTotal r = Some sTTot
          \<and> self_allowBurstStress r = Some sTTotMax \<and> self_splineLF r = Some lF
          \<and> getBurstingSafetyFactor sTTot sTTotMax lF = Inr v
          \<and> self_burstSafetyFactor r = Some v)"
  unfolding assign_Inr update_same
  by (simp_all add: update_same split: if_splits)

lemma assign_idem:
  "assign_shaftStress i a = Inr a' \<Longrightarrow> assign_shaftStress i a' = Inr a'"
  "assign_appFactor i a = Inr a' \<Longrightarrow> assign_appFactor i a' = Inr a'"
  "assign_splineLF i a = Inr a' \<Longrightarrow> assign_splineLF i a' = Inr a'"
  "assign_allowShaftStress pc i a = Inr a' \<Longrightarrow> assign_allowShaftStress pc i a' = Inr a'"
  "assign_maxShaftStress a = Inr a' \<Longrightarrow> assign_maxShaftStress a' = Inr a'"
  "assign_shaftSafetyFactor a = Inr a' \<Longrightarrow> assign_shaftSafetyFactor a' = Inr a'"
  "assign_teethLoadkM i a = Inr a' \<Longrightarrow> assign_teethLoadkM i a' = Inr a'"
  "assign_teethShearStress i a = Inr a' \<Longrightarrow> assign_teethShearStress i a' = Inr a'"
  "assign_maxTeethShearStress a = Inr a' \<Longrightarrow> assign_maxTeethShearStress a' = Inr a'"
  "assign_teethSafetyFactor a = Inr a' \<Longrightarrow> assign_teethSafetyFactor a' = Inr a'"
  "assign_compStress i a = Inr a' \<Longrightarrow> assign_compStress i a' = Inr a'"
  "assign_allowCompStress pc i a = Inr a' \<Longrightarrow> assign_allowCompStress pc i a' = Inr a'"
  "assign_lifeWear i a = Inr a' \<Longrightarrow> assign_lifeWear i a' = Inr a'"
  "assign_factoredCompStress i a = Inr a' \<Longrightarrow> assign_factoredCompStress i a' = Inr a'"
  "assign_compSafetyFactor a = Inr a' \<Longrightarrow> assign_compSafetyFactor a' = Inr a'"
  "assign_burstRad i a = Inr a' \<Longrightarrow> assign_burstRad i a' = Inr a'"
  "assign_burstCentrifugal pc i a = Inr a' \<Longrightarrow> assign_burstCentrifugal pc i a' = Inr a'"
  "assign_burstTens i a = Inr a' \<Longrightarrow> assign_burstTens i a' = Inr a'"
  "assign_burstTotal a = Inr a' \<Longrightarrow> assign_burstTotal a' = Inr a'"
  "assign_allowBurstStress pc i a = Inr a' \<Longrightarrow> assign_allowBurstStress pc i a' = Inr a'"
  "assign_burstSafetyFactor a = Inr a' \<Longrightarrow> assign_burstSafetyFactor a' = Inr a'"
  unfolding settled_iff
  by (auto simp: assign_Inr split: if_splits)

lemma settles_ConsI:
  "\<forall>p\<in>set pre. \<forall>b b'. p b = Inr b \<and> s b = Inr b' \<longrightarrow> p b' = Inr b' \<Longrightarrow>
   \<forall>a a'. s a = Inr a' \<longrightarrow> s a' = Inr a' \<Longrightarrow>
   settles (pre @ [s]) suf \<Longrightarrow> settles pre (s # suf)"
  by simp

lemma statements_settle: "settles [] (statements pc i)"
  unfolding statements_def
  by (rule settles_ConsI, (auto simp: settled_iff dest!: assign_shape split: if_splits)[1],
      (blast intro: assign_idem)[1], simp only: append.simps)+ simp

lemma calculate_again:
  assumes "calculate pc i r = (e, r')"
  shows "calculate pc i r' = (e, r')"
proof -
  have "run ([] @ statements pc i) r' = (e, r')"
  proof (rule rerun [OF statements_settle])
    show "\<forall>p\<in>set []. p r = Inr r" by simp
    show "run (statements pc i) r = (e, r')" using assms by (simp add: calculate_def)
  qed
  then show ?thesis by (simp add: calculate_def)
qed

lemma run_related:
  "related known ss qs \<Longrightarrow> list_all (\<lambda>e. e a b) known \<Longrightarrow>
   fst (run ss a) = fst (run ss b)
   \<and> (fst (run ss a) = None \<longrightarrow>
        list_all (\<lambda>e. e (snd (run ss a)) (snd (run ss b))) (known @ take (length ss) qs))"
proof (induction ss arbitrary: known qs a b)
  case Nil
  then show ?case by simp
next
  case (Cons s ss)
  then obtain q qs' where qs: "qs = q # qs'" by (cases qs) auto
  have step: "case s a of
            Inl x \<Rightarrow> s b = Inl x
          | Inr a' \<Rightarrow> (\<exists>b'. s b = Inr b' \<and> list_all (\<lambda>e. e a' b') (known @ [q]))"
    and rest: "related (known @ [q]) ss qs'"
    using Cons.prems qs by auto
  show ?case
  proof (cases "s a")
    case (Inl x)
    then show ?thesis using step by simp
  next
    case (Inr a')
    then obtain b' where b': "s b = Inr b'" "list_all (\<lambda>e. e a' b') (known @ [q])"
      using step by auto
    from Cons.IH [OF rest b'(2)] show ?thesis
      using Inr b'(1) qs by simp
  qed
qed

lemma related_ConsI:
  "\<forall>a b. list_all (\<lambda>e. e a b) known \<longrightarrow>
         (case s a of
            Inl x \<Rightarrow> s b = Inl x
          | Inr a' \<Rightarrow> (\<exists>b'. s b = Inr b' \<and> list_all (\<lambda>e. e a' b') (known @ [q]))) \<Longrightarrow>
   related (known @ [q]) ss qs \<Longrightarrow> related known (s # ss) (q # qs)"
  by simp

lemma statements_related: "related [] (statements pc i) (same_attributes i)"
  unfolding statements_def same_attributes_def
  by (rule related_ConsI,
      (auto simp: assign_defs bindE_def attr_def split: sum.splits option.splits)[1],
      simp only: append.simps)+ simp

text \<open>
  Claim C10. The pipeline is a function of the stored inputs and the unit converter
  alone. Running it again on the object it has left gives the same outcome and leaves the
  same attributes, whether it completed or raised. The attributes that the object held
  before a run have no effect: from any two attribute states it ends the same way,
  with the same exception or with none, and when it completes every field of the result is
  the same (and the wear life factor too, for a flexible spline).
\<close>

theorem calculate_deterministic:
  "calculate pc i (snd (calculate pc i r)) = calculate pc i r
   \<and> fst (calculate pc i ra) = fst (calculate pc i r)
   \<and> (fst (calculate pc i r) = None \<longrightarrow>
        resultFields (snd (calculate pc i ra)) = resultFields (snd (calculate pc i r))
        \<and> (self_flexible i \<longrightarrow>
             self_lifeWear (snd (calculate pc i ra)) = self_lifeWear (snd (calculate pc i r))))"
proof -
  have again: "calculate pc i (snd (calculate pc i r)) = calculate pc i r"
    using calculate_again [of pc i r "fst (calculate pc i r)" "snd (calculate pc i r)"]
    by simp
  have rel: "fst (run (statements pc i) ra) = fst (run (statements pc i) r)
     \<and> (fst (run (statements pc i) ra) = None \<longrightarrow>
        list_all (\<lambda>e. e (snd (run (statements pc i) ra)) (snd (run (statements pc i) r)))
          ([] @ take (length (statements pc i)) (same_attributes i)))"
    by (rule run_related [OF statements_related]) simp
  have len: "take (length (statements pc i)) (same_attributes i) = same_attributes i"
    by (simp add: statements_def same_attributes_def)
  have same: "fst (calculate pc i ra) = fst (calculate pc i r)"
    using rel by (simp add: calculate_def)
  have fields: "resultFields (snd (calculate pc i ra)) = resultFields (snd (calculate pc i r))
        \<and> (self_flexible i \<longrightarrow>
             self_lifeWear (snd (calculate pc i ra)) = self_lifeWear (snd (calculate pc i r)))"
    if "fst (calculate pc i r) = None"
  proof -
    have "list_all (\<lambda>e. e (snd (calculate pc i ra)) (snd (calculate pc i r)))
            (same_attributes i)"
      using rel that same unfolding len by (simp add: calculate_def)
    then show ?thesis
      by (simp add: same_attributes_def resultFields_def)
  qed
  show ?thesis using again same fields by blast
qed


text \<open>The input set of the entry form's defaults, run once and then again.\<close>

theorem calculate_deterministic_witness:
  "fst (calculate specConverter exampleInput unassigned) = None
   \<and> calculate specConverter exampleInput
        (snd (calculate specConverter exampleInput unassigned))
      = calculate specConverter exampleInput unassigned
   \<and> resultFields (snd (calculate specConverter exampleInput
                         (snd (calculate specConverter exampleInput unassigned))))
      = resultFields (snd (calculate specConverter exampleInput unassigned))"
proof -
  have h: "fst (calculate specConverter exampleInput unassigned) = None"
    by (simp add: eval_defs)
  show ?thesis
    using h calculate_deterministic [where pc = specConverter and i = exampleInput
        and r = unassigned and ra = "snd (calculate specConverter exampleInput unassigned)"]
    by simp
qed

end
